theory Spec2Isabelle
  imports Main "HOL-Library.Multiset"
begin

section \<open>HTTP exceptions (errors/http-exceptions.ts)\<close>

text \<open>
  The classes declared in the exception module. \<open>HttpException\<close> extends the built-in
  \<open>Error\<close>; every other class extends \<open>HttpException\<close>.
\<close>

datatype exc_class =
    HttpException
  | BadRequestException
  | UnauthorizedException
  | ForbiddenException
  | NotFoundException
  | ConflictException
  | InternalServerErrorException

text \<open>The classes in the order of their declaration in the module.\<close>

definition declared_classes :: "exc_class list" where
  "declared_classes =
     [HttpException, BadRequestException, UnauthorizedException, ForbiddenException,
      NotFoundException, ConflictException, InternalServerErrorException]"

text \<open>The \<open>extends\<close> clause of each class; \<open>None\<close> stands for the built-in \<open>Error\<close>.\<close>

fun extends :: "exc_class \<Rightarrow> exc_class option" where
  "extends HttpException = None"
| "extends BadRequestException = Some HttpException"
| "extends UnauthorizedException = Some HttpException"
| "extends ForbiddenException = Some HttpException"
| "extends NotFoundException = Some HttpException"
| "extends ConflictException = Some HttpException"
| "extends InternalServerErrorException = Some HttpException"

definition canned_subclasses :: "exc_class list" where
  "canned_subclasses = filter (\<lambda>c. extends c = Some HttpException) declared_classes"

text \<open>
  An instance of \<open>HttpException\<close> or of one of its subclasses: the class it was created
  from, the \<open>name\<close> the constructor assigns, the read-only \<open>status\<close>, the \<open>message\<close>
  handed to \<open>Error\<close>, and the stack trace the runtime captured at construction.
\<close>

record http_exception =
  exc_of :: exc_class
  exc_name :: string
  exc_status :: int
  exc_message :: string
  exc_stack :: string

text \<open>\<open>new HttpException(status, message)\<close>; \<open>stk\<close> is the captured stack trace.\<close>

definition new_HttpException :: "int \<Rightarrow> string \<Rightarrow> string \<Rightarrow> http_exception" where
  "new_HttpException status message stk =
     \<lparr>exc_of = HttpException, exc_name = ''HttpException'', exc_status = status,
      exc_message = message, exc_stack = stk\<rparr>"

text \<open>
  A default parameter value \<open>message: string = d\<close> is used when the argument is
  \<open>undefined\<close>, here \<open>None\<close>.
\<close>

definition default_arg :: "string \<Rightarrow> string option \<Rightarrow> string" where
  "default_arg d arg = (case arg of None \<Rightarrow> d | Some m \<Rightarrow> m)"

definition new_BadRequestException :: "string option \<Rightarrow> string \<Rightarrow> http_exception" where
  "new_BadRequestException arg stk =
     (new_HttpException 400 (default_arg ''Bad Request'' arg) stk)
       \<lparr>exc_of := BadRequestException, exc_name := ''BadRequestException''\<rparr>"

definition new_UnauthorizedException :: "string option \<Rightarrow> string \<Rightarrow> http_exception" where
  "new_UnauthorizedException arg stk =
     (new_HttpException 401 (default_arg ''Unauthorized'' arg) stk)
       \<lparr>exc_of := UnauthorizedException, exc_name := ''UnauthorizedException''\<rparr>"

definition new_ForbiddenException :: "string option \<Rightarrow> string \<Rightarrow> http_exception" where
  "new_ForbiddenException arg stk =
     (new_HttpException 403 (default_arg ''Forbidden'' arg) stk)
       \<lparr>exc_of := ForbiddenException, exc_name := ''ForbiddenException''\<rparr>"

definition new_NotFoundException :: "string option \<Rightarrow> string \<Rightarrow> http_exception" where
  "new_NotFoundException arg stk =
     (new_HttpException 404 (default_arg ''Not Found'' arg) stk)
       \<lparr>exc_of := NotFoundException, exc_name := ''NotFoundException''\<rparr>"

definition new_ConflictException :: "string option \<Rightarrow> string \<Rightarrow> http_exception" where
  "new_ConflictException arg stk =
     (new_HttpException 409 (default_arg ''Conflict'' arg) stk)
       \<lparr>exc_of := ConflictException, exc_name := ''ConflictException''\<rparr>"

definition new_InternalServerErrorException :: "string option \<Rightarrow> string \<Rightarrow> http_exception" where
  "new_InternalServerErrorException arg stk =
     (new_HttpException 500 (default_arg ''Internal Server Error'' arg) stk)
       \<lparr>exc_of := InternalServerErrorException, exc_name := ''InternalServerErrorException''\<rparr>"

section \<open>The global error handler (runtime/application.ts)\<close>

text \<open>
  A value that reaches the error handler. \<open>Http e\<close> is a value for which
  \<open>err instanceof HttpException\<close> holds. \<open>Other status message stack\<close> is any other
  value, seen through the three properties the handler reads; \<open>None\<close> is \<open>undefined\<close>
  (the property is absent). Only numeric \<open>status\<close> and string \<open>message\<close> and \<open>stack\<close>
  properties are represented.
\<close>

datatype js_err =
    Http http_exception
  | Other "int option" "string option" "string option"

text \<open>
  The JSON body \<open>{ statusCode, message, stack? }\<close> and the response the handler
  produces with \<open>res.status(s).json(body)\<close>. A \<open>stack\<close> of \<open>None\<close> is a body without
  that key (a key whose value is \<open>undefined\<close> is not serialised either).
\<close>

record error_body =
  statusCode :: int
  message :: string
  stack :: "string option"

record error_response =
  res_status :: int
  res_body :: error_body

text \<open>\<open>x || d\<close> on an optional number and on an optional string: 0 and the empty string are falsy.\<close>

definition num_or :: "int option \<Rightarrow> int \<Rightarrow> int" where
  "num_or x d = (case x of None \<Rightarrow> d | Some n \<Rightarrow> if n = 0 then d else n)"

definition str_or :: "string option \<Rightarrow> string \<Rightarrow> string" where
  "str_or x d = (case x of None \<Rightarrow> d | Some s \<Rightarrow> if s = [] then d else s)"

fun errorHandler :: "bool \<Rightarrow> js_err \<Rightarrow> error_response" where
  "errorHandler isDev (Http e) =
     \<lparr>res_status = exc_status e,
      res_body = \<lparr>statusCode = exc_status e, message = exc_message e,
                  stack = (if isDev then Some (exc_stack e) else None)\<rparr>\<rparr>"
| "errorHandler isDev (Other st msg stk) =
     (let status = num_or st 500;
          message = str_or msg ''Internal Server Error''
      in \<lparr>res_status = status,
          res_body = \<lparr>statusCode = status, message = message,
                      stack = (if isDev then stk else None)\<rparr>\<rparr>)"


section \<open>Strings\<close>

text \<open>\<open>s.startsWith(p)\<close>.\<close>

definition startsWith :: "string \<Rightarrow> string \<Rightarrow> bool" where
  "startsWith s p = (take (length p) s = p)"

text \<open>
  \<open>s.split(c)\<close> for a one-character separator: the result always has at least one
  element, and an empty string between two separators is kept.
\<close>

fun split :: "char \<Rightarrow> string \<Rightarrow> string list" where
  "split c [] = [[]]"
| "split c (x # xs) =
     (if x = c then [] # split c xs
      else (case split c xs of [] \<Rightarrow> [[x]] | w # ws \<Rightarrow> (x # w) # ws))"

text \<open>\<open>xs.join(sep)\<close> on an array of strings.\<close>

fun join :: "string \<Rightarrow> string list \<Rightarrow> string" where
  "join sep [] = []"
| "join sep [x] = x"
| "join sep (x # y # ys) = x @ sep @ join sep (y # ys)"

text \<open>\<open>xs.slice(0, e)\<close>: a negative end counts from the end of the array.\<close>

definition slice0 :: "int \<Rightarrow> 'a list \<Rightarrow> 'a list" where
  "slice0 e xs =
     (if e < 0 then take (nat (max (int (length xs) + e) 0)) xs
      else take (nat (min e (int (length xs)))) xs)"

section \<open>Metadata storage (metadata.ts)\<close>

text \<open>
  A class is a reference, here a number; so is a middleware function. A property key is
  a string or a symbol; a symbol has an identity and a description.
\<close>

type_synonym cls = nat
type_synonym middleware = nat

datatype propkey = StrKey string | SymKey nat string

record controllerMetadata =
  prefix :: string
  controllers :: "cls list option"

record routeMetadata = route_method :: string  path :: string  propertyKey :: propkey

datatype param_type = T_param | T_query | T_body | T_headers | T_req | T_res

record parameterMetadata =
  ptype :: param_type
  pname :: "string option"
  index :: nat

record middlewareMetadata =
  classMiddlewares :: "middleware list"
  methodMiddlewares :: "propkey \<Rightarrow> middleware list option"

text \<open>
  All metadata of a class lives on its prototype, under fixed keys
  (\<open>CONTROLLER_KEY\<close>, \<open>ROUTES_KEY\<close>, \<open>MIDDLEWARE_KEY\<close>) and under one computed key per
  method for the parameters. A slot holding \<open>None\<close> is an absent key. \<open>members\<close> tells
  which property keys of the prototype hold a (truthy) method. The slots are kept apart
  from the members; superclasses are not represented.
\<close>

record proto =
  controller_slot :: "controllerMetadata option"
  routes_slot :: "routeMetadata list option"
  params_slot :: "string \<Rightarrow> parameterMetadata list option"
  middleware_slot :: "middlewareMetadata option"
  members :: "propkey \<Rightarrow> bool"

text \<open>
  Every function of the module starts with \<open>target.prototype || target\<close>: whether it is
  handed the class or its prototype, it works on the prototype. A target is therefore
  the class whose prototype is meant.
\<close>

type_synonym store = "cls \<Rightarrow> proto"

definition PARAMS_KEY :: string where
  "PARAMS_KEY = ''__express_next_params__''"

text \<open>\<open>String(propertyKey)\<close>.\<close>

fun String_of :: "propkey \<Rightarrow> string" where
  "String_of (StrKey s) = s"
| "String_of (SymKey i d) = ''Symbol('' @ d @ '')''"

definition params_key :: "propkey \<Rightarrow> string" where
  "params_key k = PARAMS_KEY @ ''_'' @ String_of k"

definition getControllerMetadata :: "store \<Rightarrow> cls \<Rightarrow> controllerMetadata option" where
  "getControllerMetadata st target = controller_slot (st target)"

definition getRouteMetadata :: "store \<Rightarrow> cls \<Rightarrow> routeMetadata list" where
  "getRouteMetadata st target =
     (case routes_slot (st target) of None \<Rightarrow> [] | Some rs \<Rightarrow> rs)"

definition getParameterMetadata :: "store \<Rightarrow> cls \<Rightarrow> propkey \<Rightarrow> parameterMetadata list" where
  "getParameterMetadata st target k =
     (case params_slot (st target) (params_key k) of None \<Rightarrow> [] | Some ps \<Rightarrow> ps)"

definition setControllerMetadata :: "store \<Rightarrow> cls \<Rightarrow> controllerMetadata \<Rightarrow> store" where
  "setControllerMetadata st target md =
     st(target := (st target)\<lparr>controller_slot := Some md\<rparr>)"

definition addRouteMetadata :: "store \<Rightarrow> cls \<Rightarrow> routeMetadata \<Rightarrow> store" where
  "addRouteMetadata st target route =
     (let rs = (case routes_slot (st target) of None \<Rightarrow> [] | Some rs \<Rightarrow> rs)
      in st(target := (st target)\<lparr>routes_slot := Some (rs @ [route])\<rparr>))"

definition addParameterMetadata :: "store \<Rightarrow> cls \<Rightarrow> propkey \<Rightarrow> parameterMetadata \<Rightarrow> store" where
  "addParameterMetadata st target k param =
     (let key = params_key k;
          ps = (case params_slot (st target) key of None \<Rightarrow> [] | Some ps \<Rightarrow> ps)
      in st(target := (st target)\<lparr>params_slot := (params_slot (st target))(key \<mapsto> ps @ [param])\<rparr>))"

definition empty_middlewareMetadata :: middlewareMetadata where
  "empty_middlewareMetadata = \<lparr>classMiddlewares = [], methodMiddlewares = (\<lambda>k. None)\<rparr>"

text \<open>
  \<open>getMiddlewareMetadata\<close> writes: an absent slot is filled with the empty metadata
  before it is returned. The result is the metadata and the store after the call.
\<close>

definition getMiddlewareMetadata :: "store \<Rightarrow> cls \<Rightarrow> middlewareMetadata \<times> store" where
  "getMiddlewareMetadata st target =
     (case middleware_slot (st target) of
        None \<Rightarrow> (empty_middlewareMetadata,
                 st(target := (st target)\<lparr>middleware_slot := Some empty_middlewareMetadata\<rparr>))
      | Some m \<Rightarrow> (m, st))"

definition addClassMiddleware :: "store \<Rightarrow> cls \<Rightarrow> middleware \<Rightarrow> store" where
  "addClassMiddleware st target mw =
     (let (m, st1) = getMiddlewareMetadata st target
      in st1(target := (st1 target)
           \<lparr>middleware_slot := Some (m\<lparr>classMiddlewares := classMiddlewares m @ [mw]\<rparr>)\<rparr>))"

definition addMethodMiddleware :: "store \<Rightarrow> cls \<Rightarrow> propkey \<Rightarrow> middleware \<Rightarrow> store" where
  "addMethodMiddleware st target k mw =
     (let (m, st1) = getMiddlewareMetadata st target;
          key = k;
          mm = (if methodMiddlewares m key = None then (methodMiddlewares m)(key \<mapsto> [])
                else methodMiddlewares m);
          ms = (case mm key of None \<Rightarrow> [] | Some ms \<Rightarrow> ms)
      in st1(target := (st1 target)
           \<lparr>middleware_slot := Some (m\<lparr>methodMiddlewares := mm(key \<mapsto> ms @ [mw])\<rparr>)\<rparr>))"

definition getMethodMiddlewares :: "store \<Rightarrow> cls \<Rightarrow> propkey \<Rightarrow> middleware list \<times> store" where
  "getMethodMiddlewares st target k =
     (let (m, st1) = getMiddlewareMetadata st target;
          methodMws = (case methodMiddlewares m k of None \<Rightarrow> [] | Some ms \<Rightarrow> ms)
      in (classMiddlewares m @ methodMws, st1))"


section \<open>Decorators\<close>

text \<open>An argument that is either a string or an options object.\<close>

datatype 'o string_or = StringArg string | OptionsArg 'o

subsection \<open>\<open>@Controller\<close> (decorators/controller.ts)\<close>

record controllerOptions =
  co_path :: string
  co_controllers :: "cls list option"
  co_middlewares :: "middleware list option"

text \<open>\<open>p && !p.startsWith("/") ? `/${p}` : p\<close>, used for prefixes and for route paths.\<close>

definition normalize_path :: "string \<Rightarrow> string" where
  "normalize_path p = (if p \<noteq> [] \<and> \<not> startsWith p ''/'' then ''/'' @ p else p)"

text \<open>\<open>xs || []\<close> on an optional array.\<close>

definition or_empty :: "'a list option \<Rightarrow> 'a list" where
  "or_empty xs = (case xs of None \<Rightarrow> [] | Some ys \<Rightarrow> ys)"

text \<open>
  \<open>Controller(prefixOrOptions)(target)\<close>. The argument defaults to the empty string.
  The decorator returns its target; the model returns the store it leaves behind.
\<close>

definition Controller :: "controllerOptions string_or option \<Rightarrow> cls \<Rightarrow> store \<Rightarrow> store" where
  "Controller prefixOrOptions target st =
     (let options =
            (case (case prefixOrOptions of None \<Rightarrow> StringArg [] | Some a \<Rightarrow> a) of
               StringArg p \<Rightarrow> \<lparr>co_path = p, co_controllers = Some [], co_middlewares = None\<rparr>
             | OptionsArg opts \<Rightarrow> opts);
          normalizedPrefix = normalize_path (co_path options);
          st1 = setControllerMetadata st target
                  \<lparr>prefix = normalizedPrefix,
                   controllers = Some (or_empty (co_controllers options))\<rparr>
      in (case co_middlewares options of
            None \<Rightarrow> st1
          | Some mws \<Rightarrow> foldl (\<lambda>s mw. addClassMiddleware s target mw) st1 mws))"

subsection \<open>HTTP method decorators (decorators/http-methods.ts)\<close>

text \<open>
  \<open>createRouteDecorator(method)(path)(target, propertyKey)\<close>; \<open>path\<close> defaults to the
  empty string.
\<close>

definition createRouteDecorator ::
  "string \<Rightarrow> string option \<Rightarrow> cls \<Rightarrow> propkey \<Rightarrow> store \<Rightarrow> store" where
  "createRouteDecorator verb path_arg target k st =
     (let p = (case path_arg of None \<Rightarrow> [] | Some q \<Rightarrow> q);
          normalizedPath = normalize_path p
      in addRouteMetadata st target
           \<lparr>route_method = verb, path = normalizedPath, propertyKey = k\<rparr>)"

definition Get :: "string option \<Rightarrow> cls \<Rightarrow> propkey \<Rightarrow> store \<Rightarrow> store" where
  "Get = createRouteDecorator ''get''"

definition Post :: "string option \<Rightarrow> cls \<Rightarrow> propkey \<Rightarrow> store \<Rightarrow> store" where
  "Post = createRouteDecorator ''post''"

definition Put :: "string option \<Rightarrow> cls \<Rightarrow> propkey \<Rightarrow> store \<Rightarrow> store" where
  "Put = createRouteDecorator ''put''"

definition Delete :: "string option \<Rightarrow> cls \<Rightarrow> propkey \<Rightarrow> store \<Rightarrow> store" where
  "Delete = createRouteDecorator ''delete''"

definition Patch :: "string option \<Rightarrow> cls \<Rightarrow> propkey \<Rightarrow> store \<Rightarrow> store" where
  "Patch = createRouteDecorator ''patch''"

definition All_methods :: "string option \<Rightarrow> cls \<Rightarrow> propkey \<Rightarrow> store \<Rightarrow> store" where
  "All_methods = createRouteDecorator ''all''"

definition http_method_decorators ::
  "(string option \<Rightarrow> cls \<Rightarrow> propkey \<Rightarrow> store \<Rightarrow> store) list" where
  "http_method_decorators = [Get, Post, Put, Delete, Patch, All_methods]"

subsection \<open>Parameter decorators (decorators/parameters.ts)\<close>

text \<open>
  \<open>!propertyKey\<close> holds for an absent key and for the empty string.
\<close>

definition falsy_key :: "propkey option \<Rightarrow> bool" where
  "falsy_key k = (case k of None \<Rightarrow> True | Some (StrKey s) \<Rightarrow> s = [] | Some (SymKey i d) \<Rightarrow> False)"

datatype decoration_error = NotOnMethod

text \<open>
  \<open>createParameterDecorator(type, name)(target, propertyKey, parameterIndex)\<close>: throws
  when there is no property key, and records the parameter otherwise.
\<close>

definition createParameterDecorator ::
  "param_type \<Rightarrow> string option \<Rightarrow> cls \<Rightarrow> propkey option \<Rightarrow> nat \<Rightarrow> store
     \<Rightarrow> decoration_error + store" where
  "createParameterDecorator ty nm target k parameterIndex st =
     (if falsy_key k then Inl NotOnMethod
      else (case k of
              None \<Rightarrow> Inl NotOnMethod
            | Some key \<Rightarrow> Inr (addParameterMetadata st target key
                               \<lparr>ptype = ty, pname = nm, index = parameterIndex\<rparr>)))"

definition Param :: "string option \<Rightarrow> cls \<Rightarrow> propkey option \<Rightarrow> nat \<Rightarrow> store \<Rightarrow> decoration_error + store" where
  "Param nm = createParameterDecorator T_param nm"

definition Query :: "string option \<Rightarrow> cls \<Rightarrow> propkey option \<Rightarrow> nat \<Rightarrow> store \<Rightarrow> decoration_error + store" where
  "Query nm = createParameterDecorator T_query nm"

definition Body :: "string option \<Rightarrow> cls \<Rightarrow> propkey option \<Rightarrow> nat \<Rightarrow> store \<Rightarrow> decoration_error + store" where
  "Body nm = createParameterDecorator T_body nm"

definition Headers :: "string option \<Rightarrow> cls \<Rightarrow> propkey option \<Rightarrow> nat \<Rightarrow> store \<Rightarrow> decoration_error + store" where
  "Headers nm = createParameterDecorator T_headers nm"

definition Req :: "cls \<Rightarrow> propkey option \<Rightarrow> nat \<Rightarrow> store \<Rightarrow> decoration_error + store" where
  "Req = createParameterDecorator T_req None"

definition Res :: "cls \<Rightarrow> propkey option \<Rightarrow> nat \<Rightarrow> store \<Rightarrow> decoration_error + store" where
  "Res = createParameterDecorator T_res None"

subsection \<open>\<open>@UseMiddleware\<close> (decorators/middleware.ts)\<close>

text \<open>
  Without a property key the decorator sits on a class and adds class-level middleware;
  with one it sits on a method of \<open>target.constructor\<close>.
\<close>

definition UseMiddleware :: "middleware list \<Rightarrow> cls \<Rightarrow> propkey option \<Rightarrow> store \<Rightarrow> store" where
  "UseMiddleware middlewares target k st =
     (if falsy_key k then foldl (\<lambda>s mw. addClassMiddleware s target mw) st middlewares
      else (case k of
              None \<Rightarrow> st
            | Some key \<Rightarrow> foldl (\<lambda>s mw. addMethodMiddleware s target key mw) st middlewares))"

subsection \<open>\<open>@Resource\<close> (decorators/resource.ts)\<close>

record resourceOptions =
  ro_path :: string
  ro_parameters :: "(string \<Rightarrow> string option) option"
  ro_controllers :: "cls list option"
  ro_middlewares :: "middleware list option"

text \<open>
  \<open>createSegments\<close> reduces over the dot-separated names, pushing each name and its
  placeholder. \<open>singular\<close> is \<open>pluralize.singular\<close> of the external library, taken as a
  parameter. A custom parameter name is used when it is present and not empty.
\<close>

definition placeholder_of :: "(string \<Rightarrow> string) \<Rightarrow> resourceOptions \<Rightarrow> string \<Rightarrow> string" where
  "placeholder_of singular options segment =
     '':'' @ (let custom = (case ro_parameters options of None \<Rightarrow> None | Some ps \<Rightarrow> ps segment)
              in (case custom of
                    None \<Rightarrow> singular segment @ ''Id''
                  | Some c \<Rightarrow> if c = [] then singular segment @ ''Id'' else c))"

definition createSegments :: "(string \<Rightarrow> string) \<Rightarrow> resourceOptions \<Rightarrow> string list" where
  "createSegments singular options =
     foldl (\<lambda>acc segment. acc @ [segment, placeholder_of singular options segment])
       [] (split (CHR ''.'') (ro_path options))"

record resourceAction =
  ra_name :: string
  ra_placeholder :: bool
  ra_method :: string

definition resourceActions :: "resourceAction list" where
  "resourceActions =
     [\<lparr>ra_name = ''index'', ra_placeholder = False, ra_method = ''get''\<rparr>,
      \<lparr>ra_name = ''show'', ra_placeholder = True, ra_method = ''get''\<rparr>,
      \<lparr>ra_name = ''create'', ra_placeholder = False, ra_method = ''post''\<rparr>,
      \<lparr>ra_name = ''update'', ra_placeholder = True, ra_method = ''put''\<rparr>,
      \<lparr>ra_name = ''patch'', ra_placeholder = True, ra_method = ''patch''\<rparr>,
      \<lparr>ra_name = ''delete'', ra_placeholder = True, ra_method = ''delete''\<rparr>]"

text \<open>The body of the \<open>forEach\<close> callback of \<open>Resource\<close>, for one action.\<close>

definition resource_action_step ::
  "string list \<Rightarrow> cls \<Rightarrow> store \<Rightarrow> resourceAction \<Rightarrow> store" where
  "resource_action_step segments target st a =
     (if \<not> members (st target) (StrKey (ra_name a)) then st
      else (let fullPath =
                  join ''/'' (slice0 (if ra_placeholder a then int (length segments) else - 1)
                                segments)
            in addRouteMetadata st target
                 \<lparr>route_method = ra_method a, path = ''/'' @ fullPath,
                  propertyKey = StrKey (ra_name a)\<rparr>))"

definition Resource ::
  "(string \<Rightarrow> string) \<Rightarrow> resourceOptions string_or \<Rightarrow> cls \<Rightarrow> store \<Rightarrow> store" where
  "Resource singular pathOrOptions target st =
     (let options =
            (case pathOrOptions of
               StringArg p \<Rightarrow> \<lparr>ro_path = p, ro_parameters = None, ro_controllers = Some [],
                               ro_middlewares = None\<rparr>
             | OptionsArg opts \<Rightarrow> opts);
          segments = createSegments singular options;
          st1 = setControllerMetadata st target
                  \<lparr>prefix = [], controllers = Some (or_empty (ro_controllers options))\<rparr>
      in foldl (resource_action_step segments target) st1 resourceActions)"


section \<open>Controller registration (runtime/router.ts)\<close>

text \<open>
  A handler function handed to the application: a middleware, or the request handler
  that \<open>createHandler\<close> builds for a controller instance and a method name. The
  instance is the one the container holds for the class.
\<close>

datatype handler = Middleware middleware | RouteHandler cls propkey

text \<open>One call \<open>app[verb](fullPath, ...handlers)\<close>.\<close>

record app_route =
  verb :: string
  full_path :: string
  handlers :: "handler list"

text \<open>
  What registration reads and writes: the prototypes with their metadata, the routes
  registered on the application so far (in the order of the calls), the classes asked
  of the container so far, and the names under which the application object has a
  route-registration function (the table of the web framework, taken as given).
  Console output is not part of the state.
\<close>

record world =
  protos :: store
  app_routes :: "app_route list"
  container_gets :: "cls list"
  app_verbs :: "string \<Rightarrow> bool"

text \<open>
  Registration fails with a \<open>TypeError\<close> when the instance has no property under the
  route's key (\<open>undefined.bind\<close>), and when the application has no function under the
  route's method name.
\<close>

datatype registration_error = NoSuchMember propkey | NoSuchVerb string

text \<open>
  Modelled from the spec: the container (container/container.ts) is a keyed singleton
  registry; \<open>container.get(Controller)\<close> yields the instance of the class, whose
  properties are those of the class's prototype. The call is recorded in
  \<open>container_gets\<close>.
\<close>

definition container_get :: "cls \<Rightarrow> world \<Rightarrow> world" where
  "container_get c w = w\<lparr>container_gets := container_gets w @ [c]\<rparr>"

text \<open>The loop \<open>for (const route of routes)\<close> of \<open>registerController\<close>.\<close>

fun register_routes ::
  "cls \<Rightarrow> string \<Rightarrow> routeMetadata list \<Rightarrow> world \<Rightarrow> registration_error + world" where
  "register_routes c fullPrefix [] w = Inr w"
| "register_routes c fullPrefix (route # rest) w =
     (let fullPath = fullPrefix @ path route
      in if \<not> members (protos w c) (propertyKey route)
         then Inl (NoSuchMember (propertyKey route))
         else (let (middlewares, st1) = getMethodMiddlewares (protos w) c (propertyKey route);
                   handler = RouteHandler c (propertyKey route);
                   hs = map Middleware middlewares @ [handler]
               in if \<not> app_verbs w (route_method route) then Inl (NoSuchVerb (route_method route))
                  else register_routes c fullPrefix rest
                         (w\<lparr>protos := st1,
                            app_routes := app_routes w @
                              [\<lparr>verb = route_method route, full_path = fullPath, handlers = hs\<rparr>]\<rparr>)))"

text \<open>
  A loop over a list whose body may fail or may not return: it stops at the first
  failure.
\<close>

fun for_each ::
  "('a \<Rightarrow> world \<Rightarrow> (registration_error + world) option) \<Rightarrow> 'a list \<Rightarrow> world
     \<Rightarrow> (registration_error + world) option" where
  "for_each body [] w = Some (Inr w)"
| "for_each body (x # xs) w =
     (case body x w of
        None \<Rightarrow> None
      | Some (Inl e) \<Rightarrow> Some (Inl e)
      | Some (Inr w1) \<Rightarrow> for_each body xs w1)"

text \<open>
  \<open>registerController(app, Controller, isDev, container, parentPrefix)\<close>. Nested
  controllers are references, so the nesting may be cyclic and the recursion may not
  end: the first argument bounds the depth of the recursion, and \<open>None\<close> says that the
  bound was reached. \<open>isDev\<close> only adds console output.
\<close>

fun registerController ::
  "nat \<Rightarrow> cls \<Rightarrow> bool \<Rightarrow> string \<Rightarrow> world \<Rightarrow> (registration_error + world) option" where
  "registerController 0 c isDev parentPrefix w = None"
| "registerController (Suc depth) c isDev parentPrefix w =
     (case getControllerMetadata (protos w) c of
        None \<Rightarrow> Some (Inr w)
      | Some controllerMetadata \<Rightarrow>
          (let fullPrefix = parentPrefix @ prefix controllerMetadata;
               routes = getRouteMetadata (protos w) c
           in (case (if routes \<noteq> []
                     then register_routes c fullPrefix routes (container_get c w)
                     else Inr w) of
                 Inl e \<Rightarrow> Some (Inl e)
               | Inr w1 \<Rightarrow>
                   (case controllers controllerMetadata of
                      None \<Rightarrow> Some (Inr w1)
                    | Some children \<Rightarrow>
                        for_each (\<lambda>child. registerController depth child isDev fullPrefix)
                          children w1))))"

section \<open>Request handling (runtime/handler.ts)\<close>

text \<open>
  A value of the platform, as far as the handler looks at it: only \<open>undefined\<close> is told
  apart from the rest.
\<close>

datatype jsval =
    JUndefined
  | JNull
  | JBool bool
  | JNum int
  | JStr string
  | JArr "jsval list"
  | JObj "(string \<times> jsval) list"

text \<open>An argument handed to the controller method: a value, or the request or response object.\<close>

datatype arg = Val jsval | ReqObject | ResObject

text \<open>
  The request as the handler reads it: \<open>req.params[k]\<close>, \<open>req.query[k]\<close>, \<open>req.body\<close>,
  \<open>req.body[k]\<close> (which throws when the body is \<open>undefined\<close> or \<open>null\<close>) and
  \<open>req.get(name)\<close> (which throws when the name is \<open>undefined\<close>).
\<close>

record request =
  req_params :: "string \<Rightarrow> jsval"
  req_query :: "string \<Rightarrow> jsval"
  req_body :: jsval
  req_body_prop :: "string \<Rightarrow> js_err + jsval"
  req_get :: "string option \<Rightarrow> js_err + jsval"

text \<open>A property key made of a name that may be \<open>undefined\<close>.\<close>

definition key_of_name :: "string option \<Rightarrow> string" where
  "key_of_name nm = (case nm of None \<Rightarrow> ''undefined'' | Some n \<Rightarrow> n)"

text \<open>
  The \<open>switch\<close> of \<open>resolveParameters\<close>, for one parameter. The six cases are all the
  values of the parameter's type, so the \<open>default\<close> branch is not reached.
\<close>

definition resolve_param :: "request \<Rightarrow> parameterMetadata \<Rightarrow> js_err + arg" where
  "resolve_param req param =
     (case ptype param of
        T_param \<Rightarrow> Inr (Val (req_params req (key_of_name (pname param))))
      | T_query \<Rightarrow> Inr (Val (req_query req (key_of_name (pname param))))
      | T_body \<Rightarrow>
          (case pname param of
             None \<Rightarrow> Inr (Val (req_body req))
           | Some n \<Rightarrow>
               if n = [] then Inr (Val (req_body req))
               else (case req_body_prop req n of Inl e \<Rightarrow> Inl e | Inr v \<Rightarrow> Inr (Val v)))
      | T_headers \<Rightarrow> (case req_get req (pname param) of Inl e \<Rightarrow> Inl e | Inr v \<Rightarrow> Inr (Val v))
      | T_req \<Rightarrow> Inr ReqObject
      | T_res \<Rightarrow> Inr ResObject)"

text \<open>\<open>xs.map(f)\<close> with a callback that may throw: the first exception ends the map.\<close>

fun map_throwing :: "('a \<Rightarrow> 'e + 'b) \<Rightarrow> 'a list \<Rightarrow> 'e + 'b list" where
  "map_throwing f [] = Inr []"
| "map_throwing f (x # xs) =
     (case f x of
        Inl e \<Rightarrow> Inl e
      | Inr y \<Rightarrow> (case map_throwing f xs of Inl e \<Rightarrow> Inl e | Inr ys \<Rightarrow> Inr (y # ys)))"

text \<open>
  \<open>[...params].sort((a, b) => a.index - b.index)\<close> is a stable sort by index, as
  \<open>sort_key\<close> is.
\<close>

definition resolveParameters :: "parameterMetadata list \<Rightarrow> request \<Rightarrow> js_err + arg list" where
  "resolveParameters params req =
     (let sortedParams = sort_key index params
      in map_throwing (resolve_param req) sortedParams)"

text \<open>
  What one run of the request handler does to its surroundings: the calls of
  \<open>res.json\<close> and of \<open>next\<close> it makes, in order, and whether the promise of the
  \<open>async\<close> function is fulfilled or rejected.
\<close>

datatype settled = Fulfilled | Rejected js_err

record handler_run =
  json_calls :: "jsval list"
  next_calls :: "js_err list"
  outcome :: settled

text \<open>
  \<open>createHandler(controllerInstance, method, propertyKey)(req, res, next)\<close>. The
  instance belongs to class \<open>c\<close>, so \<open>controllerInstance.constructor\<close> is \<open>c\<close>.
  \<open>meth\<close> is the bound controller method with the result of awaiting it: a value, or
  what it threw or rejected with. \<open>res_json\<close> is \<open>res.json\<close>, which may throw. \<open>next\<close>
  returns normally.
\<close>

definition createHandler ::
  "store \<Rightarrow> cls \<Rightarrow> (arg list \<Rightarrow> js_err + jsval) \<Rightarrow> propkey \<Rightarrow> request
     \<Rightarrow> (jsval \<Rightarrow> js_err option) \<Rightarrow> handler_run" where
  "createHandler st c meth k req res_json =
     (let params = getParameterMetadata st c k
      in (case resolveParameters params req of
            Inl error \<Rightarrow> \<lparr>json_calls = [], next_calls = [error], outcome = Fulfilled\<rparr>
          | Inr args \<Rightarrow>
              (case meth args of
                 Inl error \<Rightarrow> \<lparr>json_calls = [], next_calls = [error], outcome = Fulfilled\<rparr>
               | Inr result \<Rightarrow>
                   if result \<noteq> JUndefined
                   then (case res_json result of
                           None \<Rightarrow> \<lparr>json_calls = [result], next_calls = [], outcome = Fulfilled\<rparr>
                         | Some error \<Rightarrow>
                             \<lparr>json_calls = [result], next_calls = [error], outcome = Fulfilled\<rparr>)
                   else \<lparr>json_calls = [], next_calls = [], outcome = Fulfilled\<rparr>)))"


section \<open>Applying decorators in sequence\<close>


section \<open>Notions used in the properties\<close>

text \<open>The number of slashes a string begins with.\<close>

definition leading_slashes :: "string \<Rightarrow> nat" where
  "leading_slashes s = length (takeWhile (\<lambda>c. c = CHR ''/'') s)"




text \<open>The prefix and the nested controllers of a class, empty for an undecorated class.\<close>

definition prefix_of :: "store \<Rightarrow> cls \<Rightarrow> string" where
  "prefix_of st c = (case getControllerMetadata st c of None \<Rightarrow> [] | Some md \<Rightarrow> prefix md)"

definition children_of :: "store \<Rightarrow> cls \<Rightarrow> cls list" where
  "children_of st c =
     (case getControllerMetadata st c of None \<Rightarrow> [] | Some md \<Rightarrow> or_empty (controllers md))"

text \<open>
  A chain of nested controllers: every class is decorated, and each one is listed among
  the nested controllers of the one before it.
\<close>

fun nested_chain :: "store \<Rightarrow> cls list \<Rightarrow> bool" where
  "nested_chain st [] = False"
| "nested_chain st [c] = (getControllerMetadata st c \<noteq> None)"
| "nested_chain st (c # d # rest) =
     (getControllerMetadata st c \<noteq> None \<and> d \<in> set (children_of st c) \<and>
      nested_chain st (d # rest))"

text \<open>
  An application route that stems from a route of the last class of a chain starting
  at \<open>c\<close>, with the prefixes of the chain in front of the route's path.
\<close>

definition registered_by :: "store \<Rightarrow> string \<Rightarrow> cls \<Rightarrow> app_route \<Rightarrow> bool" where
  "registered_by st pp c e =
     (\<exists>chain r. nested_chain st (c # chain) \<and>
        r \<in> set (getRouteMetadata st (last (c # chain))) \<and>
        verb e = route_method r \<and>
        full_path e = pp @ concat (map (prefix_of st) (c # chain)) @ path r)"

text \<open>What registration reads of the prototypes.\<close>

definition reads ::
  "store \<Rightarrow> (cls \<Rightarrow> controllerMetadata option) \<times> (cls \<Rightarrow> routeMetadata list) \<times>
     (cls \<Rightarrow> propkey \<Rightarrow> bool) \<times> (cls \<Rightarrow> propkey \<Rightarrow> middleware list)" where
  "reads st =
     (getControllerMetadata st, getRouteMetadata st, (\<lambda>c. members (st c)),
      (\<lambda>c k. fst (getMethodMiddlewares st c k)))"

text \<open>The call that the route loop makes for one route, and the loop with its guard.\<close>

definition route_entry :: "store \<Rightarrow> cls \<Rightarrow> string \<Rightarrow> routeMetadata \<Rightarrow> app_route" where
  "route_entry st c fullPrefix route =
     \<lparr>verb = route_method route, full_path = fullPrefix @ path route,
      handlers = map Middleware (fst (getMethodMiddlewares st c (propertyKey route))) @
                 [RouteHandler c (propertyKey route)]\<rparr>"

definition own_phase :: "cls \<Rightarrow> string \<Rightarrow> world \<Rightarrow> registration_error + world" where
  "own_phase c fp w =
     (if getRouteMetadata (protos w) c \<noteq> []
      then register_routes c fp (getRouteMetadata (protos w) c) (container_get c w)
      else Inr w)"

text \<open>The route that \<open>Resource\<close> adds for one action.\<close>

definition resource_route :: "string list \<Rightarrow> resourceAction \<Rightarrow> routeMetadata" where
  "resource_route segs a =
     \<lparr>route_method = ra_method a,
      path = ''/'' @ join ''/'' (if ra_placeholder a then segs else butlast segs),
      propertyKey = StrKey (ra_name a)\<rparr>"

section \<open>Example programs\<close>

text \<open>A class that was just declared, with the given method names and no metadata.\<close>

definition class_with :: "string list \<Rightarrow> proto" where
  "class_with names =
     \<lparr>controller_slot = None, routes_slot = None, params_slot = (\<lambda>k. None),
      middleware_slot = None,
      members = (\<lambda>k. case k of StrKey s \<Rightarrow> s \<in> set names | SymKey i d \<Rightarrow> False)\<rparr>"

text \<open>An application without routes, before any controller is registered.\<close>

definition fresh_app :: "store \<Rightarrow> world" where
  "fresh_app st =
     \<lparr>protos = st, app_routes = [], container_gets = [],
      app_verbs = (\<lambda>v. v \<in> set [''get'', ''post'', ''put'', ''delete'', ''patch'', ''all''])\<rparr>"

definition world_of :: "(registration_error + world) option \<Rightarrow> world" where
  "world_of res =
     (case res of Some (Inr w) \<Rightarrow> w | _ \<Rightarrow> fresh_app (\<lambda>c. class_with []))"

definition registered_paths :: "(registration_error + world) option \<Rightarrow> (string \<times> string) list" where
  "registered_paths res = map (\<lambda>e. (verb e, full_path e)) (app_routes (world_of res))"

text \<open>
  \<^verbatim>\<open>
  @Controller("users") @UseMiddleware(10)
  class Users /* class 0 */ {
    @Get() list() {}
    @Get("/:id") @UseMiddleware(11) show() {}
  }
  @Controller({ path: "/api", controllers: [Users], middlewares: [20] })
  class Api /* class 1 */ { @Get("/status") status() {} }
  \<close>
  Method decorators run when the class body is evaluated, class decorators afterwards.
\<close>

definition api_store :: store where
  "api_store =
     Controller (Some (OptionsArg \<lparr>co_path = ''/api'', co_controllers = Some [0],
                                  co_middlewares = Some [20]\<rparr>)) 1
      (Get (Some ''/status'') 1 (StrKey ''status'')
        (Controller (Some (StringArg ''users'')) 0
          (UseMiddleware [10] 0 None
            (Get (Some ''/:id'') 0 (StrKey ''show'')
              (UseMiddleware [11] 0 (Some (StrKey ''show''))
                (Get None 0 (StrKey ''list'')
                  (\<lambda>c. class_with [''list'', ''show'', ''status''])))))))"

text \<open>
  \<^verbatim>\<open>
  @Controller("/users") class Users /* class 0 */ { @Get() list() {} }
  @Controller({ path: "/api/", controllers: [Users] }) class Api /* class 1 */ {}
  \<close>
\<close>

definition slash_store :: store where
  "slash_store =
     Controller (Some (OptionsArg \<lparr>co_path = ''/api/'', co_controllers = Some [0],
                                  co_middlewares = None\<rparr>)) 1
       (Controller (Some (StringArg ''/users'')) 0
          (Get None 0 (StrKey ''list'') (\<lambda>c. class_with [''list''])))"

text \<open>
  \<^verbatim>\<open>
  @Controller({ path: "/a", controllers: [Self] }) class Self /* class 0 */ {}
  \<close>
\<close>

definition self_nested_store :: store where
  "self_nested_store =
     Controller (Some (OptionsArg \<lparr>co_path = ''/a'', co_controllers = Some [0],
                                  co_middlewares = None\<rparr>)) 0
       (\<lambda>c. class_with [])"


text \<open>A stand-in for \<open>pluralize.singular\<close> that drops a final \<open>s\<close>.\<close>

definition drop_s :: "string \<Rightarrow> string" where
  "drop_s s = (if s \<noteq> [] \<and> last s = CHR ''s'' then butlast s else s)"


section \<open>Exceptions and the error handler\<close>

lemmas exception_constructors =
  new_BadRequestException_def new_UnauthorizedException_def new_ForbiddenException_def
  new_NotFoundException_def new_ConflictException_def new_InternalServerErrorException_def
  new_HttpException_def

text \<open>
  C7, first part as stated: the module declares five canned subclasses of the base
  exception. It declares six.
\<close>

theorem canned_subclasses_count_counterexample: "length canned_subclasses \<noteq> 5"
  by (simp add: canned_subclasses_def declared_classes_def)

text \<open>
  C7, amended: the exception hierarchy is the base status-carrying exception with six
  canned subclasses, for the statuses 400, 401, 403, 404, 409 and 500; each canned
  exception constructed without an argument carries its default message (\<open>Bad Request\<close>,
  \<open>Unauthorized\<close>, \<open>Forbidden\<close>, \<open>Not Found\<close>, \<open>Conflict\<close>, \<open>Internal Server Error\<close>) and its
  fixed status code.
\<close>

theorem canned_exception_defaults:
  "canned_subclasses =
     [BadRequestException, UnauthorizedException, ForbiddenException,
      NotFoundException, ConflictException, InternalServerErrorException]
   \<and> length canned_subclasses = 6
   \<and> (let e = new_BadRequestException None stk
      in (exc_status e, exc_message e) = (400, ''Bad Request''))
   \<and> (let e = new_UnauthorizedException None stk
      in (exc_status e, exc_message e) = (401, ''Unauthorized''))
   \<and> (let e = new_ForbiddenException None stk
      in (exc_status e, exc_message e) = (403, ''Forbidden''))
   \<and> (let e = new_NotFoundException None stk
      in (exc_status e, exc_message e) = (404, ''Not Found''))
   \<and> (let e = new_ConflictException None stk
      in (exc_status e, exc_message e) = (409, ''Conflict''))
   \<and> (let e = new_InternalServerErrorException None stk
      in (exc_status e, exc_message e) = (500, ''Internal Server Error''))"
  by (simp add: canned_subclasses_def declared_classes_def exception_constructors
      default_arg_def)

text \<open>
  C6, as stated: an error that is not an instance of the exception classes is answered
  with status 500. An error that carries a \<open>status\<close> property of its own, as the errors of
  the body parser do, is answered with that status.
\<close>

theorem errorHandler_status_counterexample:
  "res_status (errorHandler False (Other (Some 400) (Some ''Unexpected token'') None)) \<noteq> 500"
  by (simp add: num_or_def)

text \<open>
  C6, amended: an instance of a known exception subclass is serialized with that
  subclass's fixed status code, and any instance of the base class with its own status
  and message; every other error is serialized with its own \<open>status\<close> property when that
  is present and not zero, and with 500 otherwise, and with its \<open>message\<close> property when
  that is present and not empty, and with \<open>Internal Server Error\<close> otherwise. The stack
  is part of the body in development mode only.
\<close>

theorem errorHandler_translation:
  "res_status (errorHandler isDev (Http (new_BadRequestException a s))) = 400
   \<and> res_status (errorHandler isDev (Http (new_UnauthorizedException a s))) = 401
   \<and> res_status (errorHandler isDev (Http (new_ForbiddenException a s))) = 403
   \<and> res_status (errorHandler isDev (Http (new_NotFoundException a s))) = 404
   \<and> res_status (errorHandler isDev (Http (new_ConflictException a s))) = 409
   \<and> res_status (errorHandler isDev (Http (new_InternalServerErrorException a s))) = 500
   \<and> errorHandler isDev (Http e) =
        \<lparr>res_status = exc_status e,
         res_body = \<lparr>statusCode = exc_status e, message = exc_message e,
                     stack = (if isDev then Some (exc_stack e) else None)\<rparr>\<rparr>
   \<and> errorHandler isDev (Other st msg stk) =
        \<lparr>res_status = (case st of None \<Rightarrow> 500 | Some n \<Rightarrow> if n = 0 then 500 else n),
         res_body =
           \<lparr>statusCode = (case st of None \<Rightarrow> 500 | Some n \<Rightarrow> if n = 0 then 500 else n),
            message = (case msg of
                         None \<Rightarrow> ''Internal Server Error''
                       | Some m \<Rightarrow> if m = [] then ''Internal Server Error'' else m),
            stack = (if isDev then stk else None)\<rparr>\<rparr>"
  by (simp add: exception_constructors num_or_def str_or_def Let_def)

section \<open>Route paths of the HTTP method decorators\<close>

lemma getRoute_add: "getRouteMetadata (addRouteMetadata st c r) c = getRouteMetadata st c @ [r]"
  by (simp add: addRouteMetadata_def getRouteMetadata_def)


text \<open>
  C3, as stated: every path that does not start with a slash is stored with exactly one
  leading slash. The empty path does not start with a slash and is stored as it is.
\<close>

theorem route_decorator_empty_path_counterexample:
  "\<not> startsWith [] ''/'' \<and>
   leading_slashes
     (path (last (getRouteMetadata (Get (Some []) 0 (StrKey ''index'') (\<lambda>c. class_with [])) 0)))
     \<noteq> 1"
  by (simp add: startsWith_def leading_slashes_def Get_def createRouteDecorator_def
      normalize_path_def addRouteMetadata_def getRouteMetadata_def class_with_def)

text \<open>
  C3, amended: for every path that is not empty and does not start with a slash, each
  of the HTTP method decorators (Get, Post, Put, Delete, Patch, All) adds a route whose
  path is the given path behind one slash, so that it begins with exactly one slash.
\<close>

theorem route_decorator_leading_slash:
  assumes "d \<in> set http_method_decorators" "p \<noteq> []" "\<not> startsWith p ''/''"
  shows "\<exists>v. getRouteMetadata (d (Some p) c k st) c =
           getRouteMetadata st c @ [\<lparr>route_method = v, path = ''/'' @ p, propertyKey = k\<rparr>]
         \<and> leading_slashes (''/'' @ p) = 1"
proof -
  from assms(2,3) have "hd p \<noteq> CHR ''/''"
    by (cases p) (simp_all add: startsWith_def)
  with assms(2) have ls: "leading_slashes (''/'' @ p) = 1"
    by (cases p) (simp_all add: leading_slashes_def)
  from assms(1) obtain v where "d = createRouteDecorator v"
    by (auto simp: http_method_decorators_def Get_def Post_def Put_def Delete_def Patch_def
        All_methods_def)
  then show ?thesis using assms(2,3) ls
    by (simp add: createRouteDecorator_def normalize_path_def getRoute_add)
qed

theorem route_decorator_leading_slash_witness:
  "Get \<in> set http_method_decorators \<and> ''users'' \<noteq> [] \<and> \<not> startsWith ''users'' ''/'' \<and>
   (\<exists>v. getRouteMetadata (Get (Some ''users'') 0 (StrKey ''getUsers'') (\<lambda>c. class_with [])) 0 =
          getRouteMetadata (\<lambda>c. class_with []) 0 @
            [\<lparr>route_method = v, path = ''/'' @ ''users'', propertyKey = StrKey ''getUsers''\<rparr>]
        \<and> leading_slashes (''/'' @ ''users'') = 1)"
proof -
  have h1: "Get \<in> set http_method_decorators" by (simp add: http_method_decorators_def)
  have h2: "''users'' \<noteq> []" by simp
  have h3: "\<not> startsWith ''users'' ''/''" by (simp add: startsWith_def)
  from route_decorator_leading_slash[OF h1 h2 h3] h1 h2 h3 show ?thesis by blast
qed

section \<open>Resource routes\<close>

lemma split_nonempty: "split c s \<noteq> []"
  by (induction s) (auto split: list.splits)

lemma foldl_push_pairs:
  "foldl (\<lambda>acc s. acc @ [s, f s]) a xs = a @ concat (map (\<lambda>s. [s, f s]) xs)"
  by (induction xs arbitrary: a) simp_all

lemma slice0_all: "slice0 (int (length xs)) xs = xs"
  by (simp add: slice0_def)

lemma slice0_minus1: "slice0 (- 1) xs = butlast xs"
  by (cases "xs = []") (simp_all add: slice0_def butlast_conv_take nat_diff_distrib')

lemma members_add: "members (addRouteMetadata st c r d) = members (st d)"
  by (simp add: addRouteMetadata_def)

lemma resource_step_one:
  "getRouteMetadata (resource_action_step segs c st a) c =
     getRouteMetadata st c @
       (if members (st c) (StrKey (ra_name a)) then [resource_route segs a] else [])"
  by (simp add: resource_action_step_def getRoute_add slice0_all slice0_minus1 resource_route_def)

lemma resource_step_members:
  "members (resource_action_step segs c st a d) = members (st d)"
  by (simp add: resource_action_step_def members_add)

lemma resource_step_routes:
  "getRouteMetadata (foldl (resource_action_step segs c) st as) c =
     getRouteMetadata st c @
       map (resource_route segs) (filter (\<lambda>a. members (st c) (StrKey (ra_name a))) as)"
proof (induction as arbitrary: st)
  case Nil
  show ?case by simp
next
  case (Cons a as)
  show ?case
    by (simp add: Cons.IH resource_step_one resource_step_members)
qed

lemma getRoute_setController:
  "getRouteMetadata (setControllerMetadata st c md) d = getRouteMetadata st d"
  by (simp add: setControllerMetadata_def getRouteMetadata_def)

lemma members_setController:
  "members (setControllerMetadata st c md d) = members (st d)"
  by (simp add: setControllerMetadata_def)


lemma split_spec:
  "concat (map (\<lambda>n. n @ [c]) (split c s)) = s @ [c] \<and> list_all (\<lambda>n. c \<notin> set n) (split c s)"
proof (induction s)
  case Nil
  show ?case by simp
next
  case (Cons x xs)
  show ?case
  proof (cases "x = c")
    case True
    with Cons show ?thesis by simp
  next
    case False
    obtain w ws where sp: "split c xs = w # ws"
      using split_nonempty[of c xs] by (cases "split c xs") auto
    with Cons False show ?thesis by simp
  qed
qed

lemma join_spec:
  "xs \<noteq> [] \<Longrightarrow> join [c] xs = butlast (concat (map (\<lambda>x. x @ [c]) xs))"
proof (induction "[c]" xs rule: join.induct)
  case 1
  then show ?case by simp
next
  case (2 x)
  show ?case by simp
next
  case (3 x y ys)
  then show ?case by (simp add: butlast_append)
qed

lemma placeholder_of_explicit:
  "placeholder_of singular options n =
     CHR '':'' #
       (case ro_parameters options of
          None \<Rightarrow> singular n @ ''Id''
        | Some ps \<Rightarrow>
            (case ps n of
               None \<Rightarrow> singular n @ ''Id''
             | Some c \<Rightarrow> if c = [] then singular n @ ''Id'' else c))"
  by (simp add: placeholder_of_def split: option.splits)

lemma concat_slash_snoc:
  "concat (map (\<lambda>s. s @ ''/'') (xs @ [a])) = concat (map (\<lambda>s. s @ ''/'') xs) @ a @ ''/''"
  by simp

lemma concat_slash_ends:
  "concat (map (\<lambda>s. s @ ''/'') xs) = [] \<or>
   (\<exists>pre. concat (map (\<lambda>s. s @ ''/'') xs) = pre @ ''/'')"
proof (cases xs rule: rev_cases)
  case Nil
  then show ?thesis by simp
next
  case (snoc ys y)
  have "concat (map (\<lambda>s. s @ ''/'') xs) = (concat (map (\<lambda>s. s @ ''/'') ys) @ y) @ ''/''"
    unfolding snoc by simp
  then show ?thesis by blast
qed

text \<open>
  C4: \<open>Resource\<close> expands the dotted name into its names (the pieces between the dots,
  none containing a dot, which give back the name when put together with dots), each
  followed by its placeholder: a colon and the custom parameter name when one is given
  and not empty, else a colon, the singular of the name and \<open>Id\<close>. For each of the six
  conventional method names that the class has, in the order index, show, create,
  update, patch, delete, it adds a route with the verb get, get, post, put, patch,
  delete. The path of index and create is a slash and all segments but the last joined
  by slashes, so it ends with a slash and the last name; the path of show, update, patch
  and delete is a slash and all segments joined by slashes, which is the former path,
  a slash and the last placeholder.
\<close>

theorem resource_routes:
  "(let options = (case pathOrOptions of
                     StringArg p \<Rightarrow> \<lparr>ro_path = p, ro_parameters = None, ro_controllers = Some [],
                                     ro_middlewares = None\<rparr>
                   | OptionsArg opts \<Rightarrow> opts);
        names = split (CHR ''.'') (ro_path options);
        ph = (\<lambda>n. CHR '':'' #
                (case ro_parameters options of
                   None \<Rightarrow> singular n @ ''Id''
                 | Some ps \<Rightarrow>
                     (case ps n of
                        None \<Rightarrow> singular n @ ''Id''
                      | Some c \<Rightarrow> if c = [] then singular n @ ''Id'' else c)));
        segments = concat (map (\<lambda>n. [n, ph n]) names);
        item = CHR ''/'' # butlast (concat (map (\<lambda>s. s @ ''/'') segments));
        coll = CHR ''/'' # butlast (concat (map (\<lambda>s. s @ ''/'') (butlast segments)));
        route = (\<lambda>v p n. if members (st target) (StrKey n)
                         then [\<lparr>route_method = v, path = p, propertyKey = StrKey n\<rparr>]
                         else [])
    in concat (map (\<lambda>n. n @ ''.'') names) = ro_path options @ ''.''
     \<and> list_all (\<lambda>n. CHR ''.'' \<notin> set n) names
     \<and> createSegments singular options = segments
     \<and> getRouteMetadata (Resource singular pathOrOptions target st) target =
         getRouteMetadata st target @
           route ''get'' coll ''index'' @ route ''get'' item ''show'' @
           route ''post'' coll ''create'' @ route ''put'' item ''update'' @
           route ''patch'' item ''patch'' @ route ''delete'' item ''delete''
     \<and> (\<exists>pre. coll = pre @ ''/'' @ last names)
     \<and> item = coll @ ''/'' @ ph (last names))"
proof -
  define options where "options = (case pathOrOptions of
                     StringArg p \<Rightarrow> \<lparr>ro_path = p, ro_parameters = None, ro_controllers = Some [],
                                     ro_middlewares = None\<rparr>
                   | OptionsArg opts \<Rightarrow> opts)"
  define names where "names = split (CHR ''.'') (ro_path options)"
  define ph where "ph = (\<lambda>n. CHR '':'' #
                (case ro_parameters options of
                   None \<Rightarrow> singular n @ ''Id''
                 | Some ps \<Rightarrow>
                     (case ps n of
                        None \<Rightarrow> singular n @ ''Id''
                      | Some c \<Rightarrow> if c = [] then singular n @ ''Id'' else c)))"
  define segments where "segments = concat (map (\<lambda>n. [n, ph n]) names)"
  define item where "item = CHR ''/'' # butlast (concat (map (\<lambda>s. s @ ''/'') segments))"
  define coll where
    "coll = CHR ''/'' # butlast (concat (map (\<lambda>s. s @ ''/'') (butlast segments)))"
  define route where "route = (\<lambda>v p n. if members (st target) (StrKey n)
                         then [\<lparr>route_method = v, path = p, propertyKey = StrKey n\<rparr>]
                         else [])"
  have ph: "placeholder_of singular options = ph"
    by (simp add: fun_eq_iff placeholder_of_explicit ph_def)
  have sp1: "concat (map (\<lambda>n. n @ ''.'') names) = ro_path options @ ''.''"
    and sp2: "list_all (\<lambda>n. CHR ''.'' \<notin> set n) names"
    using split_spec[of "CHR ''.''" "ro_path options"] by (simp_all add: names_def)
  have segs: "createSegments singular options = segments"
    by (simp add: createSegments_def foldl_push_pairs names_def segments_def ph)
  have "names \<noteq> []" by (simp add: names_def split_nonempty)
  then obtain ns ln where names: "names = ns @ [ln]" by (metis rev_exhaust)
  define A where "A = concat (map (\<lambda>n. [n, ph n]) ns)"
  define CA where "CA = concat (map (\<lambda>s. s @ ''/'') A)"
  have seg_eq: "segments = (A @ [ln]) @ [ph ln]"
    by (simp add: segments_def names A_def)
  have bl: "butlast segments = A @ [ln]" unfolding seg_eq by (rule butlast_snoc)
  have ne1: "segments \<noteq> []" and ne2: "butlast segments \<noteq> []"
    unfolding bl by (simp_all add: seg_eq)
  have coll_eq: "coll = CHR ''/'' # CA @ ln"
    unfolding coll_def bl concat_slash_snoc CA_def[symmetric] by (simp add: butlast_append)
  have item_eq: "item = CHR ''/'' # CA @ ln @ ''/'' @ ph ln"
    unfolding item_def seg_eq concat_slash_snoc CA_def[symmetric]
    by (simp add: butlast_append)
  have j1: "join ''/'' segments = butlast (concat (map (\<lambda>s. s @ ''/'') segments))"
    by (rule join_spec[OF ne1])
  have j2: "join ''/'' (butlast segments) =
      butlast (concat (map (\<lambda>s. s @ ''/'') (butlast segments)))"
    by (rule join_spec[OF ne2])
  have "getRouteMetadata (Resource singular pathOrOptions target st) target =
        getRouteMetadata st target @
          map (resource_route segments)
            (filter (\<lambda>a. members (st target) (StrKey (ra_name a))) resourceActions)"
    unfolding Resource_def Let_def options_def[symmetric] segs
    by (simp add: resource_step_routes getRoute_setController members_setController)
  then have routes: "getRouteMetadata (Resource singular pathOrOptions target st) target =
         getRouteMetadata st target @
           route ''get'' coll ''index'' @ route ''get'' item ''show'' @
           route ''post'' coll ''create'' @ route ''put'' item ''update'' @
           route ''patch'' item ''patch'' @ route ''delete'' item ''delete''"
    by (simp add: resourceActions_def resource_route_def j1 j2 route_def item_def coll_def)
  have last_coll: "\<exists>pre. coll = pre @ ''/'' @ last names"
  proof -
    from concat_slash_ends[of A] show ?thesis
    proof
      assume "concat (map (\<lambda>s. s @ ''/'') A) = []"
      then have "coll = [] @ ''/'' @ last names"
        unfolding coll_eq CA_def by (simp add: names)
      then show ?thesis by blast
    next
      assume "\<exists>pre. concat (map (\<lambda>s. s @ ''/'') A) = pre @ ''/''"
      then obtain pre where "CA = pre @ ''/''" unfolding CA_def by blast
      then have "coll = (CHR ''/'' # pre) @ ''/'' @ last names"
        unfolding coll_eq by (simp add: names)
      then show ?thesis by blast
    qed
  qed
  have last_item: "item = coll @ ''/'' @ ph (last names)"
    unfolding item_eq coll_eq by (simp add: names)
  show ?thesis
    using sp1 sp2 segs routes last_coll last_item
    unfolding Let_def route_def item_def coll_def segments_def ph_def names_def options_def
    by (intro conjI)
qed

theorem resource_routes_witness:
  "getRouteMetadata
     (Resource drop_s (StringArg ''blogs.comments'') 0 (\<lambda>c. class_with [''index'', ''show''])) 0 =
     [\<lparr>route_method = ''get'', path = ''/blogs/:blogId/comments'', propertyKey = StrKey ''index''\<rparr>,
      \<lparr>route_method = ''get'', path = ''/blogs/:blogId/comments/:commentId'',
       propertyKey = StrKey ''show''\<rparr>]
   \<and> createSegments drop_s
       \<lparr>ro_path = ''blogs.comments'', ro_parameters = None, ro_controllers = Some [],
        ro_middlewares = None\<rparr> =
     [''blogs'', '':blogId'', ''comments'', '':commentId'']"
proof -
  note inst = resource_routes[of "StringArg ''blogs.comments''" drop_s
      "\<lambda>c. class_with [''index'', ''show'']" 0]
  from inst have r: "getRouteMetadata
     (Resource drop_s (StringArg ''blogs.comments'') 0 (\<lambda>c. class_with [''index'', ''show''])) 0 =
     [\<lparr>route_method = ''get'', path = ''/blogs/:blogId/comments'', propertyKey = StrKey ''index''\<rparr>,
      \<lparr>route_method = ''get'', path = ''/blogs/:blogId/comments/:commentId'',
       propertyKey = StrKey ''show''\<rparr>]"
    by (simp add: Let_def drop_s_def class_with_def getRouteMetadata_def)
  from inst have s: "createSegments drop_s
       \<lparr>ro_path = ''blogs.comments'', ro_parameters = None, ro_controllers = Some [],
        ro_middlewares = None\<rparr> =
     [''blogs'', '':blogId'', ''comments'', '':commentId'']"
    by (simp add: Let_def drop_s_def)
  from r s show ?thesis by (intro conjI)
qed

section \<open>Parameter resolution\<close>

















section \<open>The request handler\<close>

text \<open>
  C10: the promise of the handler is always fulfilled. When parameter resolution or the
  controller method throws or rejects, the handler calls \<open>next\<close> with that error, once,
  and does not call \<open>res.json\<close>. Otherwise it calls \<open>res.json\<close> with the result, once,
  exactly when the result is not \<open>undefined\<close>, and with an \<open>undefined\<close> result it calls
  neither \<open>res.json\<close> nor \<open>next\<close>; an exception of \<open>res.json\<close> itself goes to \<open>next\<close>.
\<close>

theorem createHandler_outcome:
  "(let run = createHandler st c meth k req res_json;
        tried = (case resolveParameters (getParameterMetadata st c k) req of
                   Inl e \<Rightarrow> Inl e | Inr args \<Rightarrow> meth args)
    in outcome run = Fulfilled \<and>
       (case tried of
          Inl e \<Rightarrow> next_calls run = [e] \<and> json_calls run = []
        | Inr r \<Rightarrow>
            json_calls run = (if r = JUndefined then [] else [r]) \<and>
            next_calls run = (if r = JUndefined then []
                              else (case res_json r of None \<Rightarrow> [] | Some e \<Rightarrow> [e]))))"
  by (simp add: createHandler_def Let_def split: sum.splits option.splits)

section \<open>Registration\<close>

lemma reads_components:
  assumes "reads st' = reads st"
  shows "getControllerMetadata st' = getControllerMetadata st"
    and "getRouteMetadata st' = getRouteMetadata st"
    and "members (st' c) = members (st c)"
    and "fst (getMethodMiddlewares st' c k) = fst (getMethodMiddlewares st c k)"
proof -
  from assms show "getControllerMetadata st' = getControllerMetadata st"
    by (simp add: reads_def)
  from assms show "getRouteMetadata st' = getRouteMetadata st"
    by (simp add: reads_def)
  from assms have "(\<lambda>c. members (st' c)) = (\<lambda>c. members (st c))"
    by (simp add: reads_def)
  then show "members (st' c) = members (st c)" by (rule fun_cong)
  from assms have "(\<lambda>c k. fst (getMethodMiddlewares st' c k)) = (\<lambda>c k. fst (getMethodMiddlewares st c k))"
    by (simp add: reads_def)
  then have "(\<lambda>k. fst (getMethodMiddlewares st' c k)) = (\<lambda>k. fst (getMethodMiddlewares st c k))"
    by (rule fun_cong)
  then show "fst (getMethodMiddlewares st' c k) = fst (getMethodMiddlewares st c k)"
    by (rule fun_cong)
qed

lemma route_entry_reads:
  assumes "reads st' = reads st"
  shows "route_entry st' = route_entry st"
proof (intro ext)
  fix c fp r
  show "route_entry st' c fp r = route_entry st c fp r"
    unfolding route_entry_def reads_components(4)[OF assms] ..
qed

lemma fst_getMethodMiddlewares:
  "fst (getMethodMiddlewares st c k) =
     (case middleware_slot (st c) of
        None \<Rightarrow> []
      | Some m \<Rightarrow> classMiddlewares m @ or_empty (methodMiddlewares m k))"
  by (simp add: getMethodMiddlewares_def getMiddlewareMetadata_def or_empty_def
      empty_middlewareMetadata_def split: option.splits)

lemma snd_getMethodMiddlewares:
  "snd (getMethodMiddlewares st c k) =
     (case middleware_slot (st c) of
        None \<Rightarrow> st(c := (st c)\<lparr>middleware_slot := Some empty_middlewareMetadata\<rparr>)
      | Some m \<Rightarrow> st)"
  by (simp add: getMethodMiddlewares_def getMiddlewareMetadata_def split: option.splits)

lemma reads_getMethodMiddlewares: "reads (snd (getMethodMiddlewares st c k)) = reads st"
proof (cases "middleware_slot (st c)")
  case None
  then show ?thesis
    by (auto simp: reads_def snd_getMethodMiddlewares fst_getMethodMiddlewares
        getControllerMetadata_def getRouteMetadata_def fun_eq_iff
        empty_middlewareMetadata_def or_empty_def)
next
  case (Some m)
  then show ?thesis by (simp add: snd_getMethodMiddlewares)
qed

lemma register_routes_Cons:
  "register_routes c fp (r # rs) w =
     (if \<not> members (protos w c) (propertyKey r) then Inl (NoSuchMember (propertyKey r))
      else if \<not> app_verbs w (route_method r) then Inl (NoSuchVerb (route_method r))
      else register_routes c fp rs
             (w\<lparr>protos := snd (getMethodMiddlewares (protos w) c (propertyKey r)),
                app_routes := app_routes w @ [route_entry (protos w) c fp r]\<rparr>))"
  by (simp add: Let_def route_entry_def case_prod_beta)

lemma register_routes_Inr:
  "register_routes c fp rs w = Inr w' \<Longrightarrow>
     reads (protos w') = reads (protos w) \<and> app_verbs w' = app_verbs w \<and>
     container_gets w' = container_gets w \<and>
     app_routes w' = app_routes w @ map (route_entry (protos w) c fp) rs"
proof (induction rs arbitrary: w)
  case Nil
  then show ?case by simp
next
  case (Cons r rs)
  let ?st1 = "snd (getMethodMiddlewares (protos w) c (propertyKey r))"
  let ?w1 = "w\<lparr>protos := ?st1, app_routes := app_routes w @ [route_entry (protos w) c fp r]\<rparr>"
  from Cons.prems have rest: "register_routes c fp rs ?w1 = Inr w'"
    by (simp only: register_routes_Cons split: if_splits) simp_all
  have r1: "reads (protos ?w1) = reads (protos w)"
    by (simp add: reads_getMethodMiddlewares)
  have e1: "route_entry (protos ?w1) = route_entry (protos w)"
    by (rule route_entry_reads[OF r1])
  from Cons.IH[OF rest] have
    "reads (protos w') = reads (protos ?w1)" "app_verbs w' = app_verbs ?w1"
    "container_gets w' = container_gets ?w1"
    "app_routes w' = app_routes ?w1 @ map (route_entry (protos ?w1) c fp) rs"
    by simp_all
  then show ?case
    unfolding e1 r1 by simp
qed

lemma for_each_chain:
  "for_each body xs w = Some (Inr w') \<Longrightarrow>
     \<exists>ws. length ws = Suc (length xs) \<and> ws ! 0 = w \<and> ws ! length xs = w' \<and>
          (\<forall>i<length xs. body (xs ! i) (ws ! i) = Some (Inr (ws ! Suc i)))"
proof (induction xs arbitrary: w)
  case Nil
  then have "length [w] = Suc (length ([]::'a list)) \<and> [w] ! 0 = w \<and>
      [w] ! length ([]::'a list) = w' \<and>
      (\<forall>i<length ([]::'a list). body ([] ! i) ([w] ! i) = Some (Inr ([w] ! Suc i)))"
    by simp
  then show ?case by (rule exI[where x = "[w]"])
next
  case (Cons x xs)
  from Cons.prems obtain w1 where b: "body x w = Some (Inr w1)"
    and rest: "for_each body xs w1 = Some (Inr w')"
    by (auto split: option.splits sum.splits)
  from Cons.IH[OF rest] obtain ws where ws: "length ws = Suc (length xs)" "ws ! 0 = w1"
    "ws ! length xs = w'" "\<forall>i<length xs. body (xs ! i) (ws ! i) = Some (Inr (ws ! Suc i))"
    by blast
  have step: "\<forall>i<length (x # xs).
      body ((x # xs) ! i) ((w # ws) ! i) = Some (Inr ((w # ws) ! Suc i))"
  proof (intro allI impI)
    fix i assume "i < length (x # xs)"
    then show "body ((x # xs) ! i) ((w # ws) ! i) = Some (Inr ((w # ws) ! Suc i))"
      using b ws(2,4) by (cases i) simp_all
  qed
  have "length (w # ws) = Suc (length (x # xs)) \<and> (w # ws) ! 0 = w \<and>
      (w # ws) ! length (x # xs) = w' \<and>
      (\<forall>i<length (x # xs).
         body ((x # xs) ! i) ((w # ws) ! i) = Some (Inr ((w # ws) ! Suc i)))"
    using ws(1,3) step by simp
  then show ?case by (rule exI[where x = "w # ws"])
qed

lemma nested_chain_reads:
  assumes "reads st' = reads st"
  shows "nested_chain st' ch = nested_chain st ch"
  by (induction ch rule: induct_list012)
     (simp_all add: children_of_def reads_components(1)[OF assms])

lemma registered_by_reads:
  assumes "reads st' = reads st"
  shows "registered_by st' = registered_by st"
  unfolding registered_by_def prefix_of_def nested_chain_reads[OF assms]
    reads_components(1)[OF assms] reads_components(2)[OF assms] ..

lemma for_each_invariant:
  assumes "for_each body xs w = Some (Inr w')"
    and "P w"
    and "\<And>x u u'. x \<in> set xs \<Longrightarrow> P u \<Longrightarrow> body x u = Some (Inr u') \<Longrightarrow> P u'"
  shows "P w'"
  using assms
proof (induction xs arbitrary: w)
  case Nil
  then show ?case by simp
next
  case (Cons x xs)
  from Cons.prems(1) obtain w1 where b: "body x w = Some (Inr w1)"
    and rest: "for_each body xs w1 = Some (Inr w')"
    by (auto split: option.splits sum.splits)
  have "P w1" by (rule Cons.prems(3)[OF _ Cons.prems(2) b]) simp
  then show ?case
  proof (rule Cons.IH[OF rest])
    fix y u u' assume "y \<in> set xs" "P u" "body y u = Some (Inr u')"
    then show "P u'" using Cons.prems(3)[of y u u'] by simp
  qed
qed

lemma registerController_Suc:
  assumes "getControllerMetadata (protos w) c = Some md"
  shows "registerController (Suc d) c isDev pp w =
     (case own_phase c (pp @ prefix md) w of
        Inl e \<Rightarrow> Some (Inl e)
      | Inr w1 \<Rightarrow>
          for_each (\<lambda>child. registerController d child isDev (pp @ prefix md))
            (or_empty (controllers md)) w1)"
  using assms
  by (simp add: own_phase_def Let_def or_empty_def split: sum.splits option.splits)

lemma own_phase_Inr:
  assumes "own_phase c fp w = Inr w1"
  shows "reads (protos w1) = reads (protos w)" "app_verbs w1 = app_verbs w"
    "app_routes w1 = app_routes w @ map (route_entry (protos w) c fp) (getRouteMetadata (protos w) c)"
    "container_gets w1 = container_gets w @ (if getRouteMetadata (protos w) c \<noteq> [] then [c] else [])"
proof -
  show "reads (protos w1) = reads (protos w)"
    using assms register_routes_Inr[of c fp "getRouteMetadata (protos w) c" "container_get c w" w1]
    by (auto simp: own_phase_def container_get_def split: if_splits)
  show "app_verbs w1 = app_verbs w"
    using assms register_routes_Inr[of c fp "getRouteMetadata (protos w) c" "container_get c w" w1]
    by (auto simp: own_phase_def container_get_def split: if_splits)
  show "app_routes w1 = app_routes w @ map (route_entry (protos w) c fp) (getRouteMetadata (protos w) c)"
    using assms register_routes_Inr[of c fp "getRouteMetadata (protos w) c" "container_get c w" w1]
    by (auto simp: own_phase_def container_get_def split: if_splits)
  show "container_gets w1 = container_gets w @ (if getRouteMetadata (protos w) c \<noteq> [] then [c] else [])"
    using assms register_routes_Inr[of c fp "getRouteMetadata (protos w) c" "container_get c w" w1]
    by (auto simp: own_phase_def container_get_def split: if_splits)
qed

lemma registered_by_own:
  assumes "getControllerMetadata st c = Some md" "r \<in> set (getRouteMetadata st c)"
  shows "registered_by st pp c (route_entry st c (pp @ prefix md) r)"
proof -
  have "nested_chain st (c # [])" using assms(1) by simp
  moreover have "r \<in> set (getRouteMetadata st (last (c # [])))" using assms(2) by simp
  moreover have "verb (route_entry st c (pp @ prefix md) r) = route_method r"
    by (simp add: route_entry_def)
  moreover have "full_path (route_entry st c (pp @ prefix md) r) =
      pp @ concat (map (prefix_of st) (c # [])) @ path r"
    using assms(1) by (simp add: route_entry_def prefix_of_def)
  ultimately show ?thesis unfolding registered_by_def by blast
qed

lemma registered_by_child:
  assumes md: "getControllerMetadata st c = Some md"
    and x: "x \<in> set (or_empty (controllers md))"
    and e: "registered_by st (pp @ prefix md) x e"
  shows "registered_by st pp c e"
proof -
  from e obtain chain r where ch: "nested_chain st (x # chain)"
    and r: "r \<in> set (getRouteMetadata st (last (x # chain)))"
    and v: "verb e = route_method r"
    and p: "full_path e = (pp @ prefix md) @ concat (map (prefix_of st) (x # chain)) @ path r"
    unfolding registered_by_def by blast
  have "nested_chain st (c # x # chain)"
    using md x ch by (simp add: children_of_def)
  moreover have "r \<in> set (getRouteMetadata st (last (c # x # chain)))" using r by simp
  moreover have "full_path e = pp @ concat (map (prefix_of st) (c # x # chain)) @ path r"
    using p md by (simp add: prefix_of_def)
  ultimately show ?thesis using v unfolding registered_by_def by blast
qed

lemma registerController_sound:
  "registerController d c isDev pp w = Some (Inr w') \<Longrightarrow>
     reads (protos w') = reads (protos w) \<and> app_verbs w' = app_verbs w \<and>
     (\<exists>new. app_routes w' = app_routes w @ new \<and>
            (\<forall>e\<in>set new. registered_by (protos w) pp c e))"
proof (induction d arbitrary: c pp w w')
  case 0
  then show ?case by simp
next
  case (Suc d)
  show ?case
  proof (cases "getControllerMetadata (protos w) c")
    case None
    with Suc.prems have "w' = w" by simp
    then show ?thesis by simp
  next
    case (Some md)
    let ?fp = "pp @ prefix md"
    let ?st = "protos w"
    let ?P = "\<lambda>u. reads (protos u) = reads ?st \<and> app_verbs u = app_verbs w \<and>
       (\<exists>new. app_routes u = app_routes w @ new \<and>
            (\<forall>e\<in>set new. registered_by ?st pp c e))"
    from Suc.prems have "(case own_phase c ?fp w of
        Inl e \<Rightarrow> Some (Inl e)
      | Inr w1 \<Rightarrow>
          for_each (\<lambda>child. registerController d child isDev ?fp)
            (or_empty (controllers md)) w1) = Some (Inr w')"
      unfolding registerController_Suc[OF Some] .
    then obtain w1 where own: "own_phase c ?fp w = Inr w1"
      and fe: "for_each (\<lambda>child. registerController d child isDev ?fp)
                 (or_empty (controllers md)) w1 = Some (Inr w')"
      by (cases "own_phase c ?fp w") simp_all
    have P1: "?P w1"
    proof -
      have "\<forall>e\<in>set (map (route_entry ?st c ?fp) (getRouteMetadata ?st c)).
              registered_by ?st pp c e"
        using registered_by_own[OF Some] by auto
      then show ?thesis using own_phase_Inr[OF own] by blast
    qed
    have step: "?P u'" if x: "x \<in> set (or_empty (controllers md))" and Pu: "?P u"
      and run: "registerController d x isDev ?fp u = Some (Inr u')" for x u u'
    proof -
      from Suc.IH[OF run] obtain new' where
        rd: "reads (protos u') = reads (protos u)" and vb: "app_verbs u' = app_verbs u"
        and ap: "app_routes u' = app_routes u @ new'"
        and nw: "\<forall>e\<in>set new'. registered_by (protos u) ?fp x e"
        by blast
      from Pu obtain new where ru: "reads (protos u) = reads ?st"
        and vu: "app_verbs u = app_verbs w"
        and au: "app_routes u = app_routes w @ new"
        and nu: "\<forall>e\<in>set new. registered_by ?st pp c e"
        by blast
      have "\<forall>e\<in>set new'. registered_by ?st pp c e"
        using nw registered_by_child[OF Some x] unfolding registered_by_reads[OF ru]
        by blast
      with nu have "\<forall>e\<in>set (new @ new'). registered_by ?st pp c e" by auto
      moreover have "app_routes u' = app_routes w @ (new @ new')" using ap au by simp
      ultimately show ?thesis using rd ru vb vu by metis
    qed
    show ?thesis
      by (rule for_each_invariant[where P = ?P, OF fe P1 step])
  qed
qed

lemma registerController_appends:
  assumes "registerController d c isDev pp w = Some (Inr w')"
  shows "\<exists>new. app_routes w' = app_routes w @ new"
  using registerController_sound[OF assms] by blast

lemma for_each_returns:
  assumes "P w"
    and "\<And>x u. x \<in> set xs \<Longrightarrow> P u \<Longrightarrow> body x u \<noteq> None"
    and "\<And>x u u'. x \<in> set xs \<Longrightarrow> P u \<Longrightarrow> body x u = Some (Inr u') \<Longrightarrow> P u'"
  shows "for_each body xs w \<noteq> None"
  using assms
proof (induction xs arbitrary: w)
  case Nil
  show ?case by simp
next
  case (Cons x xs)
  have nn: "body x w \<noteq> None" by (rule Cons.prems(2)[OF _ Cons.prems(1)]) simp
  show ?case
  proof (cases "body x w")
    case None
    with nn show ?thesis by simp
  next
    case (Some res)
    show ?thesis
    proof (cases res)
      case (Inl e)
      with Some show ?thesis by simp
    next
      case (Inr w1)
      have P1: "P w1" by (rule Cons.prems(3)[of x w w1]) (simp_all add: Some Inr Cons.prems(1))
      have "for_each body xs w1 \<noteq> None"
      proof (rule Cons.IH[OF P1])
        fix y u assume "y \<in> set xs" "P u"
        then show "body y u \<noteq> None" using Cons.prems(2)[of y u] by simp
      next
        fix y u u' assume "y \<in> set xs" "P u" "body y u = Some (Inr u')"
        then show "P u'" using Cons.prems(3)[of y u u'] by simp
      qed
      with Some Inr show ?thesis by simp
    qed
  qed
qed


text \<open>
  When the nesting of controllers is acyclic, so that a rank decreases from each class
  to its nested controllers, registration returns for every depth bound above the rank
  of the class: with a result, or with the \<open>TypeError\<close> of a route.
\<close>

lemma registerController_returns:
  assumes rank: "\<And>x y. y \<in> set (children_of st x) \<Longrightarrow> rk y < rk x"
  shows "reads (protos w) = reads st \<Longrightarrow> rk c < d \<Longrightarrow>
           registerController d c isDev pp w \<noteq> None"
proof (induction d arbitrary: c pp w)
  case 0
  then show ?case by simp
next
  case (Suc d)
  show ?case
  proof (cases "getControllerMetadata (protos w) c")
    case None
    then show ?thesis by simp
  next
    case (Some md)
    let ?fp = "pp @ prefix md"
    let ?cs = "or_empty (controllers md)"
    have cs: "children_of st c = ?cs"
      using Some reads_components(1)[OF Suc.prems(1)] by (simp add: children_of_def)
    show ?thesis
    proof (cases "own_phase c ?fp w")
      case (Inl e)
      then show ?thesis unfolding registerController_Suc[OF Some] by simp
    next
      case (Inr w1)
      have P1: "reads (protos w1) = reads st"
        using own_phase_Inr(1)[OF Inr] Suc.prems(1) by simp
      have "for_each (\<lambda>child. registerController d child isDev ?fp) ?cs w1 \<noteq> None"
      proof (rule for_each_returns[where P = "\<lambda>u. reads (protos u) = reads st", OF P1])
        fix x and u :: world
        assume x: "x \<in> set ?cs" and u: "reads (protos u) = reads st"
        from x cs rank[of x c] have "rk x < rk c" by simp
        with Suc.prems(2) have "rk x < d" by simp
        from Suc.IH[OF u this] show "registerController d x isDev ?fp u \<noteq> None" .
      next
        fix x and u u' :: world
        assume "x \<in> set ?cs" and u: "reads (protos u) = reads st"
          and run: "registerController d x isDev ?fp u = Some (Inr u')"
        from registerController_sound[OF run] u show "reads (protos u') = reads st" by simp
      qed
      with Inr show ?thesis unfolding registerController_Suc[OF Some] by simp
    qed
  qed
qed

lemma startsWith_slash: "startsWith s ''/'' = (s \<noteq> [] \<and> hd s = CHR ''/'')"
  by (cases s) (simp_all add: startsWith_def)






lemma class_after_addClass:
  "fst (getMiddlewareMetadata (addClassMiddleware st c mw) c) =
     (fst (getMiddlewareMetadata st c))
       \<lparr>classMiddlewares := classMiddlewares (fst (getMiddlewareMetadata st c)) @ [mw]\<rparr>"
  by (simp add: addClassMiddleware_def getMiddlewareMetadata_def split: option.splits)

lemma method_after_addMethod:
  "fst (getMiddlewareMetadata (addMethodMiddleware st c k mw) c) =
     (fst (getMiddlewareMetadata st c))
       \<lparr>methodMiddlewares := (methodMiddlewares (fst (getMiddlewareMetadata st c)))
            (k \<mapsto> or_empty (methodMiddlewares (fst (getMiddlewareMetadata st c)) k) @ [mw])\<rparr>"
  by (auto simp: addMethodMiddleware_def getMiddlewareMetadata_def or_empty_def
      empty_middlewareMetadata_def fun_eq_iff split: option.splits)

lemma fst_getMethodMiddlewares':
  "fst (getMethodMiddlewares st c k) =
     classMiddlewares (fst (getMiddlewareMetadata st c)) @
     or_empty (methodMiddlewares (fst (getMiddlewareMetadata st c)) k)"
  by (simp add: getMethodMiddlewares_def or_empty_def case_prod_beta)

lemma fold_addClassMiddleware:
  "fst (getMiddlewareMetadata (foldl (\<lambda>s mw. addClassMiddleware s c mw) st mws) c) =
     (fst (getMiddlewareMetadata st c))
       \<lparr>classMiddlewares := classMiddlewares (fst (getMiddlewareMetadata st c)) @ mws\<rparr>"
proof (induction mws arbitrary: st)
  case Nil
  show ?case by simp
next
  case (Cons mw mws)
  show ?case by (simp add: Cons.IH class_after_addClass)
qed

lemma or_empty_simps: "or_empty None = []" "or_empty (Some xs) = xs"
  by (simp_all add: or_empty_def)

lemma fold_addMethodMiddleware:
  "classMiddlewares (fst (getMiddlewareMetadata
       (foldl (\<lambda>s mw. addMethodMiddleware s c k mw) st mws) c)) =
     classMiddlewares (fst (getMiddlewareMetadata st c)) \<and>
   or_empty (methodMiddlewares (fst (getMiddlewareMetadata
       (foldl (\<lambda>s mw. addMethodMiddleware s c k mw) st mws) c)) k) =
     or_empty (methodMiddlewares (fst (getMiddlewareMetadata st c)) k) @ mws"
proof (induction mws arbitrary: st)
  case Nil
  show ?case by simp
next
  case (Cons mw mws)
  show ?case by (simp add: Cons.IH method_after_addMethod or_empty_simps)
qed






lemma UseMiddleware_class:
  "classMiddlewares (fst (getMiddlewareMetadata (UseMiddleware mws t None st) t)) =
     classMiddlewares (fst (getMiddlewareMetadata st t)) @ mws"
  by (simp add: UseMiddleware_def falsy_key_def fold_addClassMiddleware)

lemma UseMiddleware_method:
  assumes "\<not> falsy_key (Some k)"
  shows "or_empty (methodMiddlewares (fst (getMiddlewareMetadata
            (UseMiddleware mws t (Some k) st) t)) k) =
         or_empty (methodMiddlewares (fst (getMiddlewareMetadata st t)) k) @ mws"
  using assms fold_addMethodMiddleware[of t k st mws]
  by (simp add: UseMiddleware_def)


text \<open>Unfolding the example programs.\<close>

lemmas evaluation =
  api_store_def slash_store_def Controller_def Get_def createRouteDecorator_def
  UseMiddleware_def falsy_key_def normalize_path_def startsWith_def setControllerMetadata_def
  addRouteMetadata_def addClassMiddleware_def addMethodMiddleware_def class_with_def
  fresh_app_def world_of_def registered_paths_def getControllerMetadata_def
  getRouteMetadata_def or_empty_def getMethodMiddlewares_def getMiddlewareMetadata_def
  container_get_def empty_middlewareMetadata_def Let_def

lemma api_routes:
  "app_routes (world_of (registerController (Suc (Suc 0)) 1 False [] (fresh_app api_store))) =
     [\<lparr>verb = ''get'', full_path = ''/api/status'',
       handlers = [Middleware 20, RouteHandler 1 (StrKey ''status'')]\<rparr>,
      \<lparr>verb = ''get'', full_path = ''/api/users'',
       handlers = [Middleware 10, RouteHandler 0 (StrKey ''list'')]\<rparr>,
      \<lparr>verb = ''get'', full_path = ''/api/users/:id'',
       handlers = [Middleware 10, Middleware 11, RouteHandler 0 (StrKey ''show'')]\<rparr>]"
  by (simp add: evaluation)

lemma api_run:
  "registerController (Suc (Suc 0)) 1 False [] (fresh_app api_store) =
     Some (Inr (world_of (registerController (Suc (Suc 0)) 1 False [] (fresh_app api_store))))"
  by (simp add: evaluation)


text \<open>
  C9: for a class without controller metadata, \<open>registerController\<close> returns, for every
  depth bound that allows the call at all, and leaves everything as it was: the routes
  of the application, the classes asked of the container and the metadata of all
  classes.
\<close>

theorem registerController_undecorated:
  assumes "getControllerMetadata (protos w) c = None"
  shows "registerController (Suc d) c isDev pp w = Some (Inr w)"
  using assms by simp

theorem registerController_undecorated_witness:
  "getControllerMetadata (protos (fresh_app api_store)) 7 = None
   \<and> registerController (Suc 0) 7 True ''/api'' (fresh_app api_store) =
       Some (Inr (fresh_app api_store))"
proof -
  have h: "getControllerMetadata (protos (fresh_app api_store)) 7 = None"
    by (simp add: evaluation)
  from registerController_undecorated[OF h] h show ?thesis by (intro conjI)
qed


text \<open>
  C8: when \<open>registerController\<close> returns for a decorated class, there is a sequence of
  states, one more than nested controllers: the first is reached from the start by
  registering exactly the class's own routes, in their order, behind the routes that
  were there; each nested controller, in the order of the \<open>controllers\<close> list, is
  registered as a whole (with its own nested controllers) from the state its predecessor
  left, only adding routes at the end; and the last state is the result.
\<close>

theorem registration_order:
  assumes run: "registerController (Suc d) c isDev pp w = Some (Inr w')"
    and md: "getControllerMetadata (protos w) c = Some md"
  shows "\<exists>ws. length ws = Suc (length (or_empty (controllers md))) \<and>
           map (\<lambda>e. (verb e, full_path e)) (app_routes (ws ! 0)) =
             map (\<lambda>e. (verb e, full_path e)) (app_routes w) @
             map (\<lambda>r. (route_method r, pp @ prefix md @ path r)) (getRouteMetadata (protos w) c) \<and>
           ws ! length (or_empty (controllers md)) = w' \<and>
           (\<forall>i<length (or_empty (controllers md)).
              registerController d (or_empty (controllers md) ! i) isDev (pp @ prefix md) (ws ! i)
                = Some (Inr (ws ! Suc i)) \<and>
              (\<exists>block. app_routes (ws ! Suc i) = app_routes (ws ! i) @ block))"
proof -
  let ?fp = "pp @ prefix md"
  let ?cs = "or_empty (controllers md)"
  from run have "(case own_phase c ?fp w of
        Inl e \<Rightarrow> Some (Inl e)
      | Inr w1 \<Rightarrow>
          for_each (\<lambda>child. registerController d child isDev ?fp) ?cs w1) = Some (Inr w')"
    unfolding registerController_Suc[OF md] .
  then obtain w1 where own: "own_phase c ?fp w = Inr w1"
    and fe: "for_each (\<lambda>child. registerController d child isDev ?fp) ?cs w1 = Some (Inr w')"
    by (cases "own_phase c ?fp w") simp_all
  from for_each_chain[OF fe] obtain ws where ws: "length ws = Suc (length ?cs)"
    "ws ! 0 = w1" "ws ! length ?cs = w'"
    "\<forall>i<length ?cs. registerController d (?cs ! i) isDev ?fp (ws ! i) = Some (Inr (ws ! Suc i))"
    by blast
  have own_routes: "map (\<lambda>e. (verb e, full_path e)) (app_routes (ws ! 0)) =
             map (\<lambda>e. (verb e, full_path e)) (app_routes w) @
             map (\<lambda>r. (route_method r, pp @ prefix md @ path r)) (getRouteMetadata (protos w) c)"
    unfolding ws(2) own_phase_Inr(3)[OF own] by (simp add: route_entry_def comp_def)
  have blocks: "\<forall>i<length ?cs.
              registerController d (?cs ! i) isDev ?fp (ws ! i) = Some (Inr (ws ! Suc i)) \<and>
              (\<exists>block. app_routes (ws ! Suc i) = app_routes (ws ! i) @ block)"
    using ws(4) registerController_appends by blast
  have "length ws = Suc (length ?cs) \<and>
           map (\<lambda>e. (verb e, full_path e)) (app_routes (ws ! 0)) =
             map (\<lambda>e. (verb e, full_path e)) (app_routes w) @
             map (\<lambda>r. (route_method r, pp @ prefix md @ path r)) (getRouteMetadata (protos w) c) \<and>
           ws ! length ?cs = w' \<and>
           (\<forall>i<length ?cs.
              registerController d (?cs ! i) isDev ?fp (ws ! i) = Some (Inr (ws ! Suc i)) \<and>
              (\<exists>block. app_routes (ws ! Suc i) = app_routes (ws ! i) @ block))"
    using ws(1,3) own_routes blocks by simp
  then show ?thesis by (rule exI[where x = ws])
qed

theorem registration_order_witness:
  "registerController (Suc (Suc 0)) 1 False [] (fresh_app api_store) =
     Some (Inr (world_of (registerController (Suc (Suc 0)) 1 False [] (fresh_app api_store))))
   \<and> getControllerMetadata (protos (fresh_app api_store)) 1 =
       Some \<lparr>prefix = ''/api'', controllers = Some [0]\<rparr>
   \<and> (\<exists>ws. length ws = 2 \<and>
          map (\<lambda>e. (verb e, full_path e)) (app_routes (ws ! 0)) = [(''get'', ''/api/status'')] \<and>
          registerController (Suc 0) 0 False ''/api'' (ws ! 0) = Some (Inr (ws ! 1)) \<and>
          map (\<lambda>e. (verb e, full_path e)) (app_routes (ws ! 1)) =
            [(''get'', ''/api/status''), (''get'', ''/api/users''), (''get'', ''/api/users/:id'')])"
proof -
  let ?w = "fresh_app api_store"
  let ?w' = "world_of (registerController (Suc (Suc 0)) 1 False [] ?w)"
  let ?md = "\<lparr>prefix = ''/api'', controllers = Some [0]\<rparr>"
  have run: "registerController (Suc (Suc 0)) 1 False [] ?w = Some (Inr ?w')"
    by (rule api_run)
  have md: "getControllerMetadata (protos ?w) 1 = Some ?md"
    by (simp add: evaluation)
  have rs: "map (\<lambda>r. (route_method r, [] @ prefix ?md @ path r)) (getRouteMetadata (protos ?w) 1)
      = [(''get'', ''/api/status'')]"
    by (simp add: evaluation)
  have a0: "map (\<lambda>e. (verb e, full_path e)) (app_routes ?w) = []"
    by (simp add: fresh_app_def)
  from registration_order[OF run md] obtain ws where
    len: "length ws = Suc (length (or_empty (controllers ?md)))"
    and own: "map (\<lambda>e. (verb e, full_path e)) (app_routes (ws ! 0)) =
             map (\<lambda>e. (verb e, full_path e)) (app_routes ?w) @
             map (\<lambda>r. (route_method r, [] @ prefix ?md @ path r)) (getRouteMetadata (protos ?w) 1)"
    and lst: "ws ! length (or_empty (controllers ?md)) = ?w'"
    and ch: "\<forall>i<length (or_empty (controllers ?md)).
              registerController (Suc 0) (or_empty (controllers ?md) ! i) False ([] @ prefix ?md) (ws ! i)
                = Some (Inr (ws ! Suc i)) \<and>
              (\<exists>block. app_routes (ws ! Suc i) = app_routes (ws ! i) @ block)"
    by blast
  have l2: "length ws = 2" using len by (simp add: or_empty_def)
  have o2: "map (\<lambda>e. (verb e, full_path e)) (app_routes (ws ! 0)) = [(''get'', ''/api/status'')]"
    using own unfolding rs a0 by simp
  have w1: "ws ! 1 = ?w'" using lst by (simp add: or_empty_def)
  have c0: "registerController (Suc 0) 0 False ''/api'' (ws ! 0) = Some (Inr (ws ! 1))"
    using ch by (simp add: or_empty_def)
  have fin: "map (\<lambda>e. (verb e, full_path e)) (app_routes (ws ! 1)) =
            [(''get'', ''/api/status''), (''get'', ''/api/users''), (''get'', ''/api/users/:id'')]"
    unfolding w1 api_routes by simp
  from l2 o2 c0 fin have "\<exists>ws. length ws = 2 \<and>
          map (\<lambda>e. (verb e, full_path e)) (app_routes (ws ! 0)) = [(''get'', ''/api/status'')] \<and>
          registerController (Suc 0) 0 False ''/api'' (ws ! 0) = Some (Inr (ws ! 1)) \<and>
          map (\<lambda>e. (verb e, full_path e)) (app_routes (ws ! 1)) =
            [(''get'', ''/api/status''), (''get'', ''/api/users''), (''get'', ''/api/users/:id'')]"
    by (intro exI[of _ ws] conjI)
  with run md show ?thesis by (intro conjI)
qed







text \<open>
  C5: the handlers registered for the i-th route of a class are the class-level
  middlewares, then the middlewares of the route's method, then the route handler, under
  the route's verb and full path; \<open>UseMiddleware\<close> on a class appends its middlewares to
  the class-level list in the order given, and on a method to that method's list.
\<close>

theorem middleware_chain_order:
  assumes run: "registerController (Suc d) c isDev pp w = Some (Inr w')"
    and md: "getControllerMetadata (protos w) c = Some md"
    and i: "i < length (getRouteMetadata (protos w) c)"
  shows "(let r = getRouteMetadata (protos w) c ! i;
              m = fst (getMiddlewareMetadata (protos w) c)
          in app_routes w' ! (length (app_routes w) + i) =
               \<lparr>verb = route_method r, full_path = pp @ prefix md @ path r,
                handlers = map Middleware (classMiddlewares m) @
                           map Middleware (or_empty (methodMiddlewares m (propertyKey r))) @
                           [RouteHandler c (propertyKey r)]\<rparr>)
     \<and> classMiddlewares (fst (getMiddlewareMetadata (UseMiddleware mws t None st) t)) =
         classMiddlewares (fst (getMiddlewareMetadata st t)) @ mws
     \<and> (\<not> falsy_key (Some k) \<longrightarrow>
         or_empty (methodMiddlewares (fst (getMiddlewareMetadata
            (UseMiddleware mws t (Some k) st) t)) k) =
         or_empty (methodMiddlewares (fst (getMiddlewareMetadata st t)) k) @ mws)"
proof -
  let ?fp = "pp @ prefix md"
  let ?cs = "or_empty (controllers md)"
  let ?rs = "getRouteMetadata (protos w) c"
  from run have "(case own_phase c ?fp w of
        Inl e \<Rightarrow> Some (Inl e)
      | Inr w1 \<Rightarrow>
          for_each (\<lambda>child. registerController d child isDev ?fp) ?cs w1) = Some (Inr w')"
    unfolding registerController_Suc[OF md] .
  then obtain w1 where own: "own_phase c ?fp w = Inr w1"
    and fe: "for_each (\<lambda>child. registerController d child isDev ?fp) ?cs w1 = Some (Inr w')"
    by (cases "own_phase c ?fp w") simp_all
  have "\<exists>new. app_routes w' = app_routes w1 @ new"
    by (rule for_each_invariant[where P = "\<lambda>u. \<exists>new. app_routes u = app_routes w1 @ new", OF fe])
       (use registerController_appends in fastforce)+
  then obtain new where "app_routes w' = app_routes w1 @ new" by blast
  then have all: "app_routes w' = app_routes w @ map (route_entry (protos w) c ?fp) ?rs @ new"
    using own_phase_Inr(3)[OF own] by simp
  have "app_routes w' ! (length (app_routes w) + i) = route_entry (protos w) c ?fp (?rs ! i)"
    unfolding all using i by (simp add: nth_append)
  then have first: "(let r = getRouteMetadata (protos w) c ! i;
              m = fst (getMiddlewareMetadata (protos w) c)
          in app_routes w' ! (length (app_routes w) + i) =
               \<lparr>verb = route_method r, full_path = pp @ prefix md @ path r,
                handlers = map Middleware (classMiddlewares m) @
                           map Middleware (or_empty (methodMiddlewares m (propertyKey r))) @
                           [RouteHandler c (propertyKey r)]\<rparr>)"
    by (simp add: Let_def route_entry_def fst_getMethodMiddlewares')
  show ?thesis
    using first UseMiddleware_class UseMiddleware_method by (intro conjI impI)
qed

theorem middleware_chain_order_witness:
  "registerController (Suc (Suc 0)) 1 False [] (fresh_app api_store) =
     Some (Inr (world_of (registerController (Suc (Suc 0)) 1 False [] (fresh_app api_store))))
   \<and> getControllerMetadata (protos (fresh_app api_store)) 1 =
       Some \<lparr>prefix = ''/api'', controllers = Some [0]\<rparr>
   \<and> 0 < length (getRouteMetadata (protos (fresh_app api_store)) 1)
   \<and> \<not> falsy_key (Some (StrKey ''show''))
   \<and> app_routes (world_of (registerController (Suc (Suc 0)) 1 False [] (fresh_app api_store))) ! 0 =
       \<lparr>verb = ''get'', full_path = ''/api/status'',
        handlers = [Middleware 20, RouteHandler 1 (StrKey ''status'')]\<rparr>
   \<and> or_empty (methodMiddlewares (fst (getMiddlewareMetadata
         (UseMiddleware [11, 12] 0 (Some (StrKey ''show'')) api_store) 0)) (StrKey ''show'')) =
       [11, 11, 12]"
proof -
  let ?w = "fresh_app api_store"
  let ?w' = "world_of (registerController (Suc (Suc 0)) 1 False [] ?w)"
  let ?md = "\<lparr>prefix = ''/api'', controllers = Some [0]\<rparr>"
  have run: "registerController (Suc (Suc 0)) 1 False [] ?w = Some (Inr ?w')"
    by (rule api_run)
  have md: "getControllerMetadata (protos ?w) 1 = Some ?md"
    by (simp add: evaluation)
  have i: "0 < length (getRouteMetadata (protos ?w) 1)"
    by (simp add: evaluation)
  have k: "\<not> falsy_key (Some (StrKey ''show''))" by (simp add: falsy_key_def)
  note inst = middleware_chain_order[OF run md i, of "[11, 12]" 0 api_store "StrKey ''show''"]
  have r0: "getRouteMetadata (protos ?w) 1 ! 0 =
      \<lparr>route_method = ''get'', path = ''/status'', propertyKey = StrKey ''status''\<rparr>"
    by (simp add: evaluation)
  have m1: "fst (getMiddlewareMetadata (protos ?w) 1) =
      \<lparr>classMiddlewares = [20], methodMiddlewares = (\<lambda>k. None)\<rparr>"
    by (simp add: evaluation)
  have old: "or_empty (methodMiddlewares (fst (getMiddlewareMetadata api_store 0)) (StrKey ''show''))
      = [11]"
    by (simp add: evaluation)
  from inst have e0: "app_routes ?w' ! 0 =
       \<lparr>verb = ''get'', full_path = ''/api/status'',
        handlers = [Middleware 20, RouteHandler 1 (StrKey ''status'')]\<rparr>"
    unfolding Let_def r0 m1 by (simp add: fresh_app_def or_empty_def)
  from inst k have um: "or_empty (methodMiddlewares (fst (getMiddlewareMetadata
         (UseMiddleware [11, 12] 0 (Some (StrKey ''show'')) api_store) 0)) (StrKey ''show'')) =
       [11, 11, 12]"
    unfolding old by simp
  from run md i k e0 um show ?thesis by (intro conjI)
qed


section \<open>Examples\<close>

text \<open>A class that nests itself: registration does not return within any depth bound.\<close>

lemma self_nesting_does_not_return:
  "registerController d 0 isDev pp (fresh_app self_nested_store) = None"
proof -
  let ?w = "fresh_app self_nested_store"
  let ?md = "\<lparr>prefix = ''/a'', controllers = Some [0]\<rparr>"
  have md: "getControllerMetadata (protos ?w) 0 = Some ?md"
    by (simp add: self_nested_store_def evaluation)
  have own: "own_phase 0 fp ?w = Inr ?w" for fp
    by (simp add: own_phase_def self_nested_store_def evaluation)
  show ?thesis
  proof (induction d arbitrary: pp)
    case 0
    show ?case by simp
  next
    case (Suc d)
    show ?case
      unfolding registerController_Suc[OF md] own by (simp add: or_empty_def Suc.IH)
  qed
qed

end
